theory Spec2Isabelle
  imports Complex_Main "HOL-Library.Sublist" "HOL-Library.Multiset" "HOL-Library.Option_ord"
begin

section \<open>Order intake of the autokraft backend\<close>

text \<open>
  The repository holds four versions of the order submission handler and three of the
  listing handler:
  \<^item> \<open>src/server.js\<close> lines 108-135 and 137-144 (the first \<open>app.post\<close> / \<open>app.get\<close>),
  \<^item> \<open>src/server.js\<close> lines 307-374 and 377-384 (the enhanced \<open>app.post\<close> / \<open>app.get\<close>),
  \<^item> \<open>src/routes/orders.js\<close> (\<open>router.post\<close>, \<open>router.get\<close>),
  \<^item> \<open>src/unnamed/part_000\<close> (a second router with an \<open>Array.isArray\<close> check).
  Each is embedded below as a function from the request and the state of the world
  (upload directory, orders collection, console) to the reply and the new state.
  What lies outside the repository (the JavaScript built-ins, the clock, the state of the
  database connection and of the file system) is the record \<open>env\<close>.
\<close>

subsection \<open>Values\<close>

text \<open>A JavaScript number: \<open>NaN\<close>, the two infinities, or a finite value.\<close>

datatype jsnum = NaN | NegInf | PosInf | Fin rat

text \<open>What \<open>JSON.parse\<close> returns. An object lists its own properties, each key once.\<close>

datatype json =
    JNull
  | JBool bool
  | JNum jsnum
  | JStr string
  | JArr "json list"
  | JObj "(string \<times> json) list"

text \<open>The three mongoose schemas: \<open>orderSchema\<close> of server.js lines 84-103, \<open>orderSchema\<close>
  of server.js lines 269-302, and \<open>OrderSchema\<close> of models/Order.js.\<close>

datatype schema = Server_first | Server_enhanced | Models_Order

text \<open>The kind of validator that failed on a path of a document.\<close>

datatype validator = V_required | V_match | V_validate | V_min | V_enum | V_cast | V_line

text \<open>The errors that are thrown or passed to \<open>next\<close>.\<close>

datatype thrown =
    SyntaxError
  | TypeError
  | ValidationError "(string \<times> validator) list"
  | MongoError
  | FsError
  | MulterError string string
  | Error_msg string

record env =
  JSON_parse :: "string \<Rightarrow> json option"
  Number_js :: "string \<Rightarrow> jsnum"
  line_ok :: "schema \<Rightarrow> json \<Rightarrow> bool"
  extname :: "string \<Rightarrow> string"
  Date_now :: nat
  Math_random :: nat
  NODE_ENV :: string
  db_fails :: bool
  unlink_fails :: bool

text \<open>
  \<^item> \<open>JSON_parse\<close>: \<open>JSON.parse\<close>, \<open>None\<close> when it throws a SyntaxError;
  \<^item> \<open>Number_js\<close>: \<open>Number\<close> applied to a string;
  \<^item> \<open>line_ok\<close>: whether mongoose casts and validates one element of \<open>products\<close>
    against the subdocument schema without an error;
  \<^item> \<open>extname\<close>: \<open>path.extname\<close>;
  \<^item> \<open>Date_now\<close>: the clock during the request; \<open>Math_random\<close>: the value of
    \<open>Math.round(Math.random() * 1E9)\<close>;
  \<^item> \<open>NODE_ENV\<close>: \<open>process.env.NODE_ENV\<close>;
  \<^item> \<open>db_fails\<close>: the storage layer rejects the operation;
  \<^item> \<open>unlink_fails\<close>: the file system refuses to delete.
\<close>

text \<open>The file part of the multipart request as \<open>fileFilter\<close> sees it, with the
  length of its byte stream.\<close>

record upload =
  originalname :: string
  mimetype :: string
  stream_bytes :: nat

text \<open>\<open>req.file\<close>: the part, extended by the disk storage with the stored name and path.\<close>

record req_file = upload +
  filename :: string
  path :: string

record request =
  body :: "string \<Rightarrow> string option"
  attached :: "upload option"

record customer =
  name :: "string option"
  email :: "string option"
  phone :: "string option"
  address :: "string option"
  pincode :: "string option"
  city :: "string option"

record order =
  customerInfo :: customer
  products :: "json list"
  totalAmount :: "jsnum option"
  paymentScreenshot :: "string option"
  status :: string
  orderDate :: "nat option"
  createdAt :: "nat option"

datatype log = Log string "thrown option"

record state =
  disk :: "string set"
  orders :: "order list"
  console :: "log list"

text \<open>
  A reply: \<open>Success c o\<close> is \<open>res.status(c).json\<close> of the order; \<open>Fail c m e\<close> is
  \<open>{success: false, message: m, error: e}\<close>, \<open>e\<close> being the error whose message is
  sent; \<open>Err c m e\<close> is \<open>{error: m, details: e}\<close>; \<open>Listing os\<close> is the orders of the
  listing; \<open>Unhandled e\<close>: the handler sent nothing and \<open>e\<close> is left to the framework.
\<close>

datatype reply =
    Success nat order
  | Fail nat string "thrown option"
  | Err nat string "thrown option"
  | Listing "order list"
  | Unhandled thrown

subsection \<open>JavaScript helpers\<close>

text \<open>\<open>!v\<close> for a body field: absent or the empty string.\<close>

definition falsy :: "string option \<Rightarrow> bool" where
  "falsy v = (v = None \<or> v = Some [])"

text \<open>\<open>Array.prototype.join\<close>.\<close>

fun join :: "string \<Rightarrow> string list \<Rightarrow> string" where
  "join sep [] = []"
| "join sep [x] = x"
| "join sep (x # y # ys) = x @ sep @ join sep (y # ys)"

text \<open>A number in a template string.\<close>

fun dec :: "nat \<Rightarrow> string" where
  "dec n = (if n < 10 then [char_of (48 + n)] else dec (n div 10) @ [char_of (48 + n mod 10)])"

text \<open>\<open>JSON.parse(v)\<close> and \<open>Number(v)\<close> of a body field that may be undefined.\<close>

definition JSON_parse_field :: "env \<Rightarrow> string option \<Rightarrow> json option" where
  "JSON_parse_field env v = (case v of None \<Rightarrow> None | Some s \<Rightarrow> JSON_parse env s)"

definition Number_field :: "env \<Rightarrow> string option \<Rightarrow> jsnum" where
  "Number_field env v = (case v of None \<Rightarrow> NaN | Some s \<Rightarrow> Number_js env s)"

text \<open>\<open>x.length === 0\<close>; \<open>None\<close> is the TypeError of \<open>null.length\<close>.\<close>

fun length_is_zero :: "json \<Rightarrow> bool option" where
  "length_is_zero JNull = None"
| "length_is_zero (JArr xs) = Some (xs = [])"
| "length_is_zero (JStr s) = Some (s = [])"
| "length_is_zero (JObj kvs) = Some (map_of kvs ''length'' = Some (JNum (Fin 0)))"
| "length_is_zero (JBool b) = Some False"
| "length_is_zero (JNum n) = Some False"

fun isArray :: "json \<Rightarrow> bool" where
  "isArray (JArr xs) = True"
| "isArray _ = False"

subsection \<open>The schema validators (server.js lines 269-302)\<close>

text \<open>A character that \<open>.\<close> of a regular expression matches: any but a line terminator.\<close>

definition dot :: "char \<Rightarrow> bool" where
  "dot c = (c \<noteq> CHR 0x0A \<and> c \<noteq> CHR 0x0D)"

text \<open>\<open>/.+\@.+\..+/\<close>, not anchored: \<open>after_at s\<close> holds when a prefix of \<open>s\<close> matches
  \<open>.+\..+\<close>, and \<open>email_match s\<close> when \<open>s\<close> contains a match of the whole expression.\<close>

fun after_at :: "string \<Rightarrow> bool" where
  "after_at (c # d # e # rest) =
     (dot c \<and> ((d = CHR ''.'' \<and> dot e) \<or> after_at (d # e # rest)))"
| "after_at _ = False"

fun email_match :: "string \<Rightarrow> bool" where
  "email_match (c # d # rest) =
     ((dot c \<and> d = CHR ''@'' \<and> after_at rest) \<or> email_match (d # rest))"
| "email_match _ = False"

text \<open>\<open>/^\d{10}$/.test(v)\<close>.\<close>

definition digit :: "char \<Rightarrow> bool" where
  "digit c = (c \<in> set ''0123456789'')"

definition phone_test :: "string \<Rightarrow> bool" where
  "phone_test v = (length v = 10 \<and> list_all digit v)"

text \<open>\<open>required\<close> on a String path fails on an absent and on an empty value.\<close>

definition required_string :: "string \<Rightarrow> string option \<Rightarrow> (string \<times> validator) list" where
  "required_string p v = (if falsy v then [(p, V_required)] else [])"

text \<open>A path reports its first failing validator; \<open>match\<close> and the custom validator are
  declared by the enhanced schema only.\<close>

definition email_errors :: "schema \<Rightarrow> string option \<Rightarrow> (string \<times> validator) list" where
  "email_errors sch v =
     (case v of
        None \<Rightarrow> [(''customerInfo.email'', V_required)]
      | Some s \<Rightarrow>
          if s = [] then [(''customerInfo.email'', V_required)]
          else if sch = Server_enhanced \<and> \<not> email_match s then [(''customerInfo.email'', V_match)]
          else [])"

definition phone_errors :: "schema \<Rightarrow> string option \<Rightarrow> (string \<times> validator) list" where
  "phone_errors sch v =
     (case v of
        None \<Rightarrow> [(''customerInfo.phone'', V_required)]
      | Some s \<Rightarrow>
          if s = [] then [(''customerInfo.phone'', V_required)]
          else if sch = Server_enhanced \<and> \<not> phone_test s then [(''customerInfo.phone'', V_validate)]
          else [])"

text \<open>\<open>min: 0\<close> on a number.\<close>

fun at_least_zero :: "jsnum \<Rightarrow> bool" where
  "at_least_zero (Fin q) = (0 \<le> q)"
| "at_least_zero PosInf = True"
| "at_least_zero NegInf = False"
| "at_least_zero NaN = False"

text \<open>\<open>totalAmount\<close>: a value that is not a number is a cast error, an absent one fails
  \<open>required\<close>, and the enhanced schema declares \<open>min: 0\<close>.\<close>

definition total_errors :: "schema \<Rightarrow> jsnum option \<Rightarrow> (string \<times> validator) list" where
  "total_errors sch v =
     (case v of
        None \<Rightarrow> [(''totalAmount'', V_required)]
      | Some n \<Rightarrow>
          if n = NaN then [(''totalAmount'', V_cast)]
          else if sch = Server_enhanced \<and> \<not> at_least_zero n then [(''totalAmount'', V_min)]
          else [])"

text \<open>The elements of \<open>products\<close> that mongoose refuses, by index.\<close>

fun line_errors :: "env \<Rightarrow> schema \<Rightarrow> nat \<Rightarrow> json list \<Rightarrow> (string \<times> validator) list" where
  "line_errors env sch i [] = []"
| "line_errors env sch i (x # xs) =
     (if line_ok env sch x then [] else [(''products.'' @ dec i, V_line)])
     @ line_errors env sch (Suc i) xs"

definition status_enum :: "string list" where
  "status_enum = [''pending'', ''processing'', ''shipped'', ''delivered'']"

definition status_errors :: "schema \<Rightarrow> string \<Rightarrow> (string \<times> validator) list" where
  "status_errors sch s =
     (if sch = Server_enhanced \<and> s \<notin> set status_enum then [(''status'', V_enum)] else [])"

text \<open>Validation runs every validator and collects the failures.\<close>

definition validate :: "schema \<Rightarrow> env \<Rightarrow> order \<Rightarrow> (string \<times> validator) list" where
  "validate sch env d =
     required_string ''customerInfo.name'' (name (customerInfo d))
     @ email_errors sch (email (customerInfo d))
     @ phone_errors sch (phone (customerInfo d))
     @ required_string ''customerInfo.address'' (address (customerInfo d))
     @ required_string ''customerInfo.pincode'' (pincode (customerInfo d))
     @ required_string ''customerInfo.city'' (city (customerInfo d))
     @ line_errors env sch 0 (products d)
     @ total_errors sch (totalAmount d)
     @ status_errors sch (status d)"

subsection \<open>The Order model\<close>

text \<open>The value handed to \<open>totalAmount\<close>: a body field as it came, or a number.\<close>

datatype amount = Raw "string option" | Numeric jsnum

text \<open>The cast of a value to the Number path: an absent or empty string leaves the path
  unset, any other string goes through \<open>Number\<close>.\<close>

fun castNumber :: "env \<Rightarrow> amount \<Rightarrow> jsnum option" where
  "castNumber env (Numeric n) = Some n"
| "castNumber env (Raw None) = None"
| "castNumber env (Raw (Some s)) = (if s = [] then None else Some (Number_js env s))"

text \<open>The cast of a value to the array path: an array gives its elements, \<open>null\<close> leaves
  the path without elements, and any other value is wrapped into an array of one
  element.\<close>

fun castArray :: "json \<Rightarrow> json list" where
  "castArray (JArr xs) = xs"
| "castArray JNull = []"
| "castArray v = [v]"

text \<open>The schemas with \<open>{ timestamps: true }\<close> and with an \<open>orderDate\<close> path.\<close>

definition timestamps :: "schema \<Rightarrow> bool" where
  "timestamps sch = (sch = Server_first \<or> sch = Server_enhanced)"

definition has_orderDate :: "schema \<Rightarrow> bool" where
  "has_orderDate sch = (sch = Server_enhanced \<or> sch = Models_Order)"

text \<open>\<open>new Order({customerInfo, products, totalAmount, paymentScreenshot, status})\<close>: the
  paths are cast and the defaults of the schema fill what the caller left out
  (\<open>status\<close>: \<open>'pending'\<close>, \<open>orderDate\<close>: \<open>Date.now\<close>).\<close>

definition new_Order ::
  "schema \<Rightarrow> env \<Rightarrow> customer \<Rightarrow> json \<Rightarrow> amount \<Rightarrow> string \<Rightarrow> string option \<Rightarrow> order" where
  "new_Order sch env c ps amt shot st =
     \<lparr> customerInfo = c,
       products = castArray ps,
       totalAmount = castNumber env amt,
       paymentScreenshot = Some shot,
       status = (case st of None \<Rightarrow> ''pending'' | Some s \<Rightarrow> s),
       orderDate = (if has_orderDate sch then Some (Date_now env) else None),
       createdAt = None \<rparr>"

text \<open>\<open>await order.save()\<close>: validation, then the insertion, which the storage layer may
  refuse; the stored document is appended to the collection.\<close>

definition save :: "schema \<Rightarrow> env \<Rightarrow> state \<Rightarrow> order \<Rightarrow> (thrown + order) \<times> state" where
  "save sch env st d =
     (if validate sch env d \<noteq> [] then (Inl (ValidationError (validate sch env d)), st)
      else if db_fails env then (Inl MongoError, st)
      else
        (let saved = d\<lparr>createdAt := (if timestamps sch then Some (Date_now env) else None)\<rparr>
         in (Inr saved, st\<lparr>orders := orders st @ [saved]\<rparr>)))"

text \<open>\<open>Order.find().sort({ key: -1 })\<close>: the collection by descending key.\<close>

definition find_sorted :: "(order \<Rightarrow> nat option) \<Rightarrow> state \<Rightarrow> order list" where
  "find_sorted key st = rev (sort_key key (orders st))"

subsection \<open>The file system\<close>

text \<open>\<open>fs.unlink\<close> and \<open>fs.unlinkSync\<close>: the error, if any, and the new state.\<close>

definition unlink :: "env \<Rightarrow> state \<Rightarrow> string \<Rightarrow> thrown option \<times> state" where
  "unlink env st p =
     (if unlink_fails env \<or> p \<notin> disk st then (Some FsError, st)
      else (None, st\<lparr>disk := disk st - {p}\<rparr>))"

definition console_error :: "string \<Rightarrow> thrown option \<Rightarrow> state \<Rightarrow> state" where
  "console_error m e st = st\<lparr>console := console st @ [Log m e]\<rparr>"

subsection \<open>The upload middleware\<close>

text \<open>The options handed to \<open>multer\<close>: the destination of the disk storage, the
  \<open>fileFilter\<close> (\<open>None\<close> accepts, \<open>Some e\<close> is \<open>cb(e)\<close>) and \<open>limits.fileSize\<close>.\<close>

record multer_options =
  destination :: string
  file_filter :: "upload \<Rightarrow> thrown option"
  fileSize :: "nat option"

text \<open>The \<open>filename\<close> callback of the disk storage, the same in every module:
  \<open>`${Date.now()}-${Math.round(Math.random() * 1E9)}${path.extname(file.originalname)}`\<close>.\<close>

definition uniqueName :: "env \<Rightarrow> upload \<Rightarrow> string" where
  "uniqueName env f =
     dec (Date_now env) @ ''-'' @ dec (Math_random env) @ extname env (originalname f)"

text \<open>server.js lines 26-33 and lines 204-211.\<close>

definition allowedTypes :: "string list" where
  "allowedTypes = [''image/jpeg'', ''image/png'', ''image/jpg'']"

definition fileFilter_first :: "upload \<Rightarrow> thrown option" where
  "fileFilter_first f =
     (if mimetype f \<in> set allowedTypes then None
      else Some (Error_msg ''Invalid file type. Only JPEG, JPG, and PNG are allowed!''))"

definition fileFilter :: "upload \<Rightarrow> thrown option" where
  "fileFilter f =
     (if mimetype f \<in> set allowedTypes then None
      else Some (MulterError ''LIMIT_UNEXPECTED_FILE''
                   ''Invalid file type. Only JPEG, JPG, and PNG are allowed!''))"

text \<open>routes/orders.js lines 25-31 and unnamed/part_000 lines 41-47.\<close>

definition fileFilter_router :: "upload \<Rightarrow> thrown option" where
  "fileFilter_router f =
     (if prefix ''image/'' (mimetype f) then None
      else Some (Error_msg ''Only image files are allowed!''))"

text \<open>server.js lines 35-39 and 213-217; routes/orders.js lines 23-32.\<close>

definition upload_first :: multer_options where
  "upload_first =
     \<lparr> destination = ''uploads/'', file_filter = fileFilter_first,
       fileSize = Some (5 * 1024 * 1024) \<rparr>"

definition upload_enhanced :: multer_options where
  "upload_enhanced =
     \<lparr> destination = ''uploads/'', file_filter = fileFilter,
       fileSize = Some (5 * 1024 * 1024) \<rparr>"

definition upload_router :: multer_options where
  "upload_router =
     \<lparr> destination = ''uploads/payments/'', file_filter = fileFilter_router,
       fileSize = None \<rparr>"

text \<open>Whether the byte stream is longer than the configured limit; no limit, no excess.\<close>

definition too_large :: "multer_options \<Rightarrow> upload \<Rightarrow> bool" where
  "too_large opts f = (case fileSize opts of None \<Rightarrow> False | Some m \<Rightarrow> m < stream_bytes f)"

text \<open>
  Modelled from the spec: the middleware \<open>upload.single('paymentScreenshot')\<close> of the
  multer package, which is a dependency and not in the repository. Section 4.1: the
  upload is rejected when the filter refuses the declared type; it is rejected when the
  byte stream exceeds \<open>maxBytes\<close>, and then the bytes written so far are discarded;
  otherwise the stream is written under the generated name and a descriptor is returned.
  A request without the file part goes on with \<open>req.file\<close> undefined.
\<close>

definition single ::
  "multer_options \<Rightarrow> env \<Rightarrow> state \<Rightarrow> upload option \<Rightarrow> (thrown + req_file option) \<times> state" where
  "single opts env st part =
     (case part of
        None \<Rightarrow> (Inr None, st)
      | Some f \<Rightarrow>
          (case file_filter opts f of
             Some e \<Rightarrow> (Inl e, st)
           | None \<Rightarrow>
               if too_large opts f
               then (Inl (MulterError ''LIMIT_FILE_SIZE'' ''paymentScreenshot''), st)
               else
                 (Inr (Some \<lparr> originalname = originalname f, mimetype = mimetype f,
                               stream_bytes = stream_bytes f,
                               filename = uniqueName env f,
                               path = destination opts @ uniqueName env f \<rparr>),
                  st\<lparr>disk := insert (destination opts @ uniqueName env f) (disk st)\<rparr>)))"

text \<open>The message multer gives an error of a code.\<close>

definition multer_message :: "string \<Rightarrow> string" where
  "multer_message code =
     (if code = ''LIMIT_FILE_SIZE'' then ''File too large''
      else if code = ''LIMIT_UNEXPECTED_FILE'' then ''Unexpected field''
      else [])"

subsection \<open>server.js, lines 1-179\<close>

text \<open>The \<open>catch\<close> of lines 130-134: \<open>fs.unlinkSync\<close> stands unguarded in the handler, so
  what it throws leaves the handler before \<open>res.status(500)\<close> is reached.\<close>

definition catch_first :: "env \<Rightarrow> state \<Rightarrow> req_file option \<Rightarrow> thrown \<Rightarrow> reply \<times> state" where
  "catch_first env st f error =
     (let st1 = console_error ''Order creation error:'' (Some error) st in
      case f of
        None \<Rightarrow> (Fail 500 ''Failed to create order'' None, st1)
      | Some fl \<Rightarrow>
          (case unlink env st1 (path fl) of
             (Some e, st2) \<Rightarrow> (Unhandled e, st2)
           | (None, st2) \<Rightarrow> (Fail 500 ''Failed to create order'' None, st2)))"

definition customer_of :: "(string \<Rightarrow> string option) \<Rightarrow> customer" where
  "customer_of b =
     \<lparr> name = b ''name'', email = b ''email'', phone = b ''phone'',
       address = b ''address'', pincode = b ''pincode'', city = b ''city'' \<rparr>"

text \<open>The handler of lines 108-135.\<close>

definition post_orders_first ::
  "env \<Rightarrow> state \<Rightarrow> (string \<Rightarrow> string option) \<Rightarrow> req_file option \<Rightarrow> reply \<times> state" where
  "post_orders_first env st b f =
     (case f of
        None \<Rightarrow> (Fail 400 ''Payment screenshot is required'' None, st)
      | Some fl \<Rightarrow>
          if falsy (b ''name'') \<or> falsy (b ''email'') \<or> falsy (b ''phone'')
             \<or> falsy (b ''address'') \<or> falsy (b ''pincode'') \<or> falsy (b ''city'')
             \<or> falsy (b ''totalAmount'') \<or> falsy (b ''products'')
          then (Fail 400 ''All fields are required'' None, st)
          else
            (case JSON_parse_field env (b ''products'') of
               None \<Rightarrow> catch_first env st f SyntaxError
             | Some parsed \<Rightarrow>
                 (case save Server_first env st
                         (new_Order Server_first env (customer_of b) parsed
                            (Raw (b ''totalAmount'')) (''/uploads/'' @ filename fl) None) of
                    (Inr newOrder, st1) \<Rightarrow> (Success 201 newOrder, st1)
                  | (Inl error, st1) \<Rightarrow> catch_first env st1 f error)))"

text \<open>The error handler of lines 165-168.\<close>

definition errorHandler_first :: "env \<Rightarrow> state \<Rightarrow> thrown \<Rightarrow> reply \<times> state" where
  "errorHandler_first env st err =
     (Fail 500 ''Something went wrong!'' None, console_error [] (Some err) st)"

text \<open>\<open>app.post('/api/orders', upload.single('paymentScreenshot'), ...)\<close>, line 108.\<close>

definition server_first_POST :: "env \<Rightarrow> state \<Rightarrow> request \<Rightarrow> reply \<times> state" where
  "server_first_POST env st req =
     (case single upload_first env st (attached req) of
        (Inl err, st1) \<Rightarrow> errorHandler_first env st1 err
      | (Inr f, st1) \<Rightarrow> post_orders_first env st1 (body req) f)"

text \<open>\<open>app.get('/api/orders')\<close>, lines 137-144.\<close>

definition server_first_GET :: "env \<Rightarrow> state \<Rightarrow> reply" where
  "server_first_GET env st =
     (if db_fails env then Fail 500 ''Failed to fetch orders'' None
      else Listing (find_sorted createdAt st))"

subsection \<open>server.js, lines 179-454\<close>

definition requiredFields :: "string list" where
  "requiredFields =
     [''name'', ''email'', ''phone'', ''address'', ''pincode'', ''city'', ''totalAmount'',
      ''products'']"

definition missingFields :: "(string \<Rightarrow> string option) \<Rightarrow> string list" where
  "missingFields b = filter (\<lambda>field. falsy (b field)) requiredFields"

text \<open>The \<open>catch\<close> of lines 359-373: the callback of \<open>fs.unlink\<close> only logs.\<close>

definition catch_enhanced :: "env \<Rightarrow> state \<Rightarrow> req_file option \<Rightarrow> thrown \<Rightarrow> reply \<times> state" where
  "catch_enhanced env st f error =
     (let st1 = console_error ''Order creation error:'' (Some error) st;
          st3 = (case f of
                   None \<Rightarrow> st1
                 | Some fl \<Rightarrow>
                     (case unlink env st1 (path fl) of
                        (Some e, st2) \<Rightarrow> console_error ''Error deleting uploaded file:'' (Some e) st2
                      | (None, st2) \<Rightarrow> st2))
      in (Fail 500 ''Failed to create order''
            (if NODE_ENV env = ''development'' then Some error else None), st3))"

text \<open>The handler of lines 307-374.\<close>

definition post_orders ::
  "env \<Rightarrow> state \<Rightarrow> (string \<Rightarrow> string option) \<Rightarrow> req_file option \<Rightarrow> reply \<times> state" where
  "post_orders env st b f =
     (case f of
        None \<Rightarrow> (Fail 400 ''Payment screenshot is required'' None, st)
      | Some fl \<Rightarrow>
          if missingFields b \<noteq> []
          then (Fail 400 (''Missing required fields: '' @ join '', '' (missingFields b)) None, st)
          else
            (case JSON_parse_field env (b ''products'') of
               None \<Rightarrow> (Fail 400 ''Invalid products format'' None, st)
             | Some parsedProducts \<Rightarrow>
                 (case save Server_enhanced env st
                         (new_Order Server_enhanced env (customer_of b) parsedProducts
                            (Numeric (Number_field env (b ''totalAmount'')))
                            (''/uploads/'' @ filename fl) None) of
                    (Inr newOrder, st1) \<Rightarrow> (Success 201 newOrder, st1)
                  | (Inl error, st1) \<Rightarrow> catch_enhanced env st1 f error)))"

text \<open>The error handler of lines 405-420.\<close>

definition errorHandler :: "env \<Rightarrow> state \<Rightarrow> thrown \<Rightarrow> reply \<times> state" where
  "errorHandler env st err =
     (case err of
        MulterError code field \<Rightarrow>
          (Fail 400 (if multer_message code = [] then ''File upload error''
                     else multer_message code) None,
           console_error ''Server error:'' (Some err) st)
      | _ \<Rightarrow>
          (Fail 500 ''Internal Server Error''
             (if NODE_ENV env = ''development'' then Some err else None),
           console_error ''Server error:'' (Some err) st))"

definition server_POST :: "env \<Rightarrow> state \<Rightarrow> request \<Rightarrow> reply \<times> state" where
  "server_POST env st req =
     (case single upload_enhanced env st (attached req) of
        (Inl err, st1) \<Rightarrow> errorHandler env st1 err
      | (Inr f, st1) \<Rightarrow> post_orders env st1 (body req) f)"

text \<open>\<open>app.get('/api/orders')\<close>, lines 377-384.\<close>

definition server_GET :: "env \<Rightarrow> state \<Rightarrow> reply" where
  "server_GET env st =
     (if db_fails env then Fail 500 ''Failed to fetch orders'' None
      else Listing (find_sorted orderDate st))"

subsection \<open>routes/orders.js\<close>

text \<open>The \<open>catch\<close> of lines 58-64.\<close>

definition catch_router :: "state \<Rightarrow> thrown \<Rightarrow> reply \<times> state" where
  "catch_router st error =
     (Err 400 ''Order processing failed'' (Some error),
      console_error ''Order creation error:'' (Some error) st)"

text \<open>\<open>router.post('/')\<close>, lines 35-65.\<close>

definition router_post ::
  "env \<Rightarrow> state \<Rightarrow> (string \<Rightarrow> string option) \<Rightarrow> req_file option \<Rightarrow> reply \<times> state" where
  "router_post env st b f =
     (if falsy (b ''products'') then (Err 400 ''Cart cannot be empty'' None, st)
      else
        (case JSON_parse_field env (b ''products'') of
           None \<Rightarrow> catch_router st SyntaxError
         | Some parsed \<Rightarrow>
             (case length_is_zero parsed of
                None \<Rightarrow> catch_router st TypeError
              | Some True \<Rightarrow> (Err 400 ''Cart cannot be empty'' None, st)
              | Some False \<Rightarrow>
                  (case f of
                     None \<Rightarrow> (Err 400 ''Required fields missing'' None, st)
                   | Some fl \<Rightarrow>
                       if falsy (b ''email'') \<or> falsy (b ''address'')
                       then (Err 400 ''Required fields missing'' None, st)
                       else
                         (case save Models_Order env st
                                 (new_Order Models_Order env (customer_of b) parsed
                                    (Raw (b ''totalAmount'')) (path fl) (Some ''pending'')) of
                            (Inr saved, st1) \<Rightarrow> (Success 201 saved, st1)
                          | (Inl error, st1) \<Rightarrow> catch_router st1 error)))))"

definition routes_POST :: "env \<Rightarrow> state \<Rightarrow> request \<Rightarrow> reply \<times> state" where
  "routes_POST env st req =
     (case single upload_router env st (attached req) of
        (Inl err, st1) \<Rightarrow> (Unhandled err, st1)
      | (Inr f, st1) \<Rightarrow> router_post env st1 (body req) f)"

text \<open>\<open>router.get('/')\<close>, lines 68-79.\<close>

definition routes_GET :: "env \<Rightarrow> state \<Rightarrow> reply \<times> state" where
  "routes_GET env st =
     (if db_fails env
      then (Err 500 ''Failed to fetch orders'' (Some MongoError),
            console_error ''Order fetch error:'' (Some MongoError) st)
      else (Listing (find_sorted orderDate st), st))"

subsection \<open>unnamed/part\_000\<close>

text \<open>\<open>router.post('/')\<close>, lines 51-83.\<close>

definition unnamed_post ::
  "env \<Rightarrow> state \<Rightarrow> (string \<Rightarrow> string option) \<Rightarrow> req_file option \<Rightarrow> reply \<times> state" where
  "unnamed_post env st b f =
     (if falsy (b ''products'') then (Err 400 ''Products data is required'' None, st)
      else
        (case JSON_parse_field env (b ''products'') of
           None \<Rightarrow> catch_router st SyntaxError
         | Some parsedProducts \<Rightarrow>
             if \<not> isArray parsedProducts \<or> parsedProducts = JArr []
             then (Err 400 ''Cart cannot be empty'' None, st)
             else
               (case f of
                  None \<Rightarrow>
                    (Err 400 ''Required fields missing or payment screenshot not uploaded'' None,
                     st)
                | Some fl \<Rightarrow>
                    if falsy (b ''email'') \<or> falsy (b ''address'')
                    then (Err 400 ''Required fields missing or payment screenshot not uploaded''
                            None, st)
                    else
                      (case save Models_Order env st
                              (new_Order Models_Order env (customer_of b) parsedProducts
                                 (Raw (b ''totalAmount'')) (path fl) (Some ''pending'')) of
                         (Inr saved, st1) \<Rightarrow> (Success 201 saved, st1)
                       | (Inl error, st1) \<Rightarrow> catch_router st1 error))))"

definition unnamed_POST :: "env \<Rightarrow> state \<Rightarrow> request \<Rightarrow> reply \<times> state" where
  "unnamed_POST env st req =
     (case single upload_router env st (attached req) of
        (Inl err, st1) \<Rightarrow> (Unhandled err, st1)
      | (Inr f, st1) \<Rightarrow> unnamed_post env st1 (body req) f)"

subsection \<open>The scenario of section 8 of the specification\<close>

text \<open>
  name="A", email="a@b.com", phone="1234567890", address="X", pincode="000", city="Y",
  totalAmount="100", one product line, and the file valid.jpg. \<open>demo_parse\<close> and the
  \<open>Number_js\<close> of \<open>demo_env\<close> give what \<open>JSON.parse\<close> and \<open>Number\<close> give on the strings
  of the scenario (\<open>'[]'\<close>, the product line, \<open>'100'\<close>) and on the string \<open>'oops'\<close>,
  which \<open>JSON.parse\<close> does not accept; they are applied to no other string.
\<close>

definition widget :: string where
  \<open>widget = ''[{"productId":"p1","name":"Widget","price":100,"quantity":1}]''\<close>

definition demo_parse :: "string \<Rightarrow> json option" where
  "demo_parse s =
     (if s = ''[]'' then Some (JArr [])
      else if s = widget
      then Some (JArr [JObj [(''productId'', JStr ''p1''), (''name'', JStr ''Widget''),
                             (''price'', JNum (Fin 100)), (''quantity'', JNum (Fin 1))]])
      else None)"

definition demo_env :: env where
  "demo_env =
     \<lparr> JSON_parse = demo_parse,
       Number_js = (\<lambda>s. if s = ''100'' then Fin 100 else NaN),
       line_ok = (\<lambda>sch j. True),
       extname = (\<lambda>s. ''.jpg''),
       Date_now = 7,
       Math_random = 42,
       NODE_ENV = ''production'',
       db_fails = False,
       unlink_fails = False \<rparr>"

definition demo_body :: "string \<Rightarrow> string option" where
  "demo_body =
     [''name'' \<mapsto> ''A'', ''email'' \<mapsto> ''a@b.com'', ''phone'' \<mapsto> ''1234567890'',
      ''address'' \<mapsto> ''X'', ''pincode'' \<mapsto> ''000'', ''city'' \<mapsto> ''Y'',
      ''totalAmount'' \<mapsto> ''100'', ''products'' \<mapsto> widget]"

definition demo_upload :: upload where
  "demo_upload = \<lparr> originalname = ''valid.jpg'', mimetype = ''image/jpeg'', stream_bytes = 1000 \<rparr>"

definition demo_request :: request where
  "demo_request = \<lparr> body = demo_body, attached = Some demo_upload \<rparr>"

definition empty_state :: state where
  "empty_state = \<lparr> disk = {}, orders = [], console = [] \<rparr>"

definition demo_order :: order where
  "demo_order =
     \<lparr> customerInfo =
         \<lparr> name = Some ''A'', email = Some ''a@b.com'', phone = Some ''1234567890'',
           address = Some ''X'', pincode = Some ''000'', city = Some ''Y'' \<rparr>,
       products = [JObj [(''productId'', JStr ''p1''), (''name'', JStr ''Widget''),
                         (''price'', JNum (Fin 100)), (''quantity'', JNum (Fin 1))]],
       totalAmount = Some (Fin 100),
       paymentScreenshot = Some ''/uploads/7-42.jpg'',
       status = ''pending'',
       orderDate = Some 7,
       createdAt = Some 7 \<rparr>"

text \<open>Three orders whose construction and insertion overlapped: the earlier an order was
  constructed (\<open>orderDate\<close>), the later it was inserted (\<open>createdAt\<close>).\<close>

definition early_order :: order where
  "early_order = demo_order\<lparr>orderDate := Some 1, createdAt := Some 9\<rparr>"

definition middle_order :: order where
  "middle_order = demo_order\<lparr>orderDate := Some 2, createdAt := Some 8\<rparr>"

definition late_order :: order where
  "late_order = demo_order\<lparr>orderDate := Some 3, createdAt := Some 7\<rparr>"

definition three_orders :: state where
  "three_orders = empty_state\<lparr>orders := [middle_order, late_order, early_order]\<rparr>"

text \<open>The order of the scenario as the routers store it: the path of the file under
  \<open>uploads/payments/\<close>, and no \<open>createdAt\<close> (models/Order.js declares no timestamps).\<close>

definition routed_order :: order where
  "routed_order =
     demo_order\<lparr>paymentScreenshot := Some ''uploads/payments/7-42.jpg'', createdAt := None\<rparr>"

text \<open>The scenario with a file declared as \<open>application/pdf\<close>, as \<open>image/gif\<close>, and with
  files of 5 MiB, of one byte more and of 6 MiB.\<close>

definition pdf_request :: request where
  "pdf_request = demo_request\<lparr>attached := Some (demo_upload\<lparr>mimetype := ''application/pdf''\<rparr>)\<rparr>"

definition gif_request :: request where
  "gif_request = demo_request\<lparr>attached := Some (demo_upload\<lparr>mimetype := ''image/gif''\<rparr>)\<rparr>"

definition sized_request :: "nat \<Rightarrow> request" where
  "sized_request n = demo_request\<lparr>attached := Some (demo_upload\<lparr>stream_bytes := n\<rparr>)\<rparr>"

text \<open>The scenario with an empty product list, with a \<open>products\<close> field that is not
  JSON, without \<open>email\<close>, and with the phone number \<open>12345\<close>.\<close>

definition empty_cart_request :: request where
  "empty_cart_request = demo_request\<lparr>body := demo_body(''products'' \<mapsto> ''[]'')\<rparr>"

definition malformed_request :: request where
  "malformed_request = demo_request\<lparr>body := demo_body(''products'' \<mapsto> ''oops'')\<rparr>"

definition no_email_request :: request where
  "no_email_request = demo_request\<lparr>body := demo_body(''email'' := None)\<rparr>"

definition short_phone_request :: request where
  "short_phone_request = demo_request\<lparr>body := demo_body(''phone'' \<mapsto> ''12345'')\<rparr>"

section \<open>Properties\<close>

declare dec.simps [simp del]

lemmas handler_defs =
  server_POST_def server_first_POST_def routes_POST_def unnamed_POST_def
  post_orders_def post_orders_first_def router_post_def unnamed_post_def
  catch_enhanced_def catch_first_def catch_router_def errorHandler_def errorHandler_first_def
  single_def too_large_def upload_enhanced_def upload_first_def upload_router_def
  fileFilter_def fileFilter_first_def fileFilter_router_def allowedTypes_def uniqueName_def
  multer_message_def missingFields_def requiredFields_def falsy_def
  JSON_parse_field_def Number_field_def customer_of_def
  save_def new_Order_def validate_def required_string_def email_errors_def phone_errors_def
  total_errors_def status_errors_def status_enum_def timestamps_def has_orderDate_def
  unlink_def console_error_def phone_test_def digit_def dot_def

lemmas demo_defs =
  demo_env_def demo_parse_def demo_body_def demo_upload_def demo_request_def empty_state_def
  demo_order_def widget_def

lemma dec_demo: "dec 7 = ''7''" "dec 42 = ''42''"
  by code_simp+

subsection \<open>The regular expressions of the schema\<close>

text \<open>The two matchers compute what the expressions say: \<open>.+\..+\<close> at the start of a
  string and \<open>.+\@.+\..+\<close> anywhere in it.\<close>

lemma after_at_intro:
  "m \<noteq> [] \<Longrightarrow> list_all dot m \<Longrightarrow> dot e \<Longrightarrow> after_at (m @ CHR ''.'' # e # b)"
proof (induction m)
  case Nil
  then show ?case by simp
next
  case (Cons x m)
  show ?case
  proof (cases m)
    case Nil
    then show ?thesis using Cons.prems by simp
  next
    case (Cons y ys)
    then have "after_at (m @ CHR ''.'' # e # b)" using Cons.IH Cons.prems by simp
    then show ?thesis using Cons Cons.prems by (cases ys) simp_all
  qed
qed

lemma after_at_elim:
  "after_at s \<Longrightarrow>
     \<exists>m e b. s = m @ CHR ''.'' # e # b \<and> m \<noteq> [] \<and> list_all dot m \<and> dot e"
proof (induction s rule: after_at.induct)
  case (1 c d e rest)
  from "1.prems" have c: "dot c"
    and alt: "(d = CHR ''.'' \<and> dot e) \<or> after_at (d # e # rest)"
    by simp_all
  from alt show ?case
  proof (rule disjE)
    assume "d = CHR ''.'' \<and> dot e"
    then have "c # d # e # rest = [c] @ CHR ''.'' # e # rest
        \<and> [c] \<noteq> [] \<and> list_all dot [c] \<and> dot e"
      using c by simp
    then show ?thesis by (intro exI)
  next
    assume "after_at (d # e # rest)"
    then have "\<exists>m e' b. d # e # rest = m @ CHR ''.'' # e' # b
        \<and> m \<noteq> [] \<and> list_all dot m \<and> dot e'"
      by (rule "1.IH")
    then obtain m e' b where "d # e # rest = m @ CHR ''.'' # e' # b" "m \<noteq> []"
      "list_all dot m" "dot e'"
      by blast
    then have "c # d # e # rest = (c # m) @ CHR ''.'' # e' # b
        \<and> c # m \<noteq> [] \<and> list_all dot (c # m) \<and> dot e'"
      using c by simp
    then show ?thesis by (intro exI)
  qed
qed simp_all

lemma after_at_iff:
  "after_at s \<longleftrightarrow>
     (\<exists>m e b. s = m @ CHR ''.'' # e # b \<and> m \<noteq> [] \<and> list_all dot m \<and> dot e)"
proof
  assume "after_at s"
  then show "\<exists>m e b. s = m @ CHR ''.'' # e # b \<and> m \<noteq> [] \<and> list_all dot m \<and> dot e"
    by (rule after_at_elim)
next
  assume "\<exists>m e b. s = m @ CHR ''.'' # e # b \<and> m \<noteq> [] \<and> list_all dot m \<and> dot e"
  then obtain m e b where "s = m @ CHR ''.'' # e # b" "m \<noteq> []" "list_all dot m" "dot e"
    by blast
  then show "after_at s" by (simp add: after_at_intro)
qed

lemma email_match_intro:
  "dot c \<Longrightarrow> after_at r \<Longrightarrow> email_match (a @ c # CHR ''@'' # r)"
proof (induction a)
  case Nil
  then show ?case by simp
next
  case (Cons x a)
  then have "email_match (a @ c # CHR ''@'' # r)" by simp
  then show ?case by (cases a) simp_all
qed

lemma email_match_elim:
  "email_match s \<Longrightarrow> \<exists>a c r. s = a @ c # CHR ''@'' # r \<and> dot c \<and> after_at r"
proof (induction s rule: email_match.induct)
  case (1 c d rest)
  from "1.prems" have "(dot c \<and> d = CHR ''@'' \<and> after_at rest) \<or> email_match (d # rest)"
    by simp
  then show ?case
  proof (rule disjE)
    assume "dot c \<and> d = CHR ''@'' \<and> after_at rest"
    then have "c # d # rest = [] @ c # CHR ''@'' # rest \<and> dot c \<and> after_at rest" by simp
    then show ?thesis by (intro exI)
  next
    assume "email_match (d # rest)"
    then have "\<exists>a c r. d # rest = a @ c # CHR ''@'' # r \<and> dot c \<and> after_at r"
      by (rule "1.IH")
    then obtain a c' r where "d # rest = a @ c' # CHR ''@'' # r" "dot c'" "after_at r"
      by blast
    then have "c # d # rest = (c # a) @ c' # CHR ''@'' # r \<and> dot c' \<and> after_at r" by simp
    then show ?thesis by (intro exI)
  qed
qed simp_all

lemma email_match_iff:
  "email_match s \<longleftrightarrow> (\<exists>a c r. s = a @ c # CHR ''@'' # r \<and> dot c \<and> after_at r)"
proof
  assume "email_match s"
  then show "\<exists>a c r. s = a @ c # CHR ''@'' # r \<and> dot c \<and> after_at r"
    by (rule email_match_elim)
next
  assume "\<exists>a c r. s = a @ c # CHR ''@'' # r \<and> dot c \<and> after_at r"
  then obtain a c r where "s = a @ c # CHR ''@'' # r" "dot c" "after_at r" by blast
  then show "email_match s" by (simp add: email_match_intro)
qed

subsection \<open>What the upload middleware lets through\<close>

lemma single_enhanced_accepts:
  assumes "mimetype f \<in> set allowedTypes" and "stream_bytes f \<le> 5 * 1024 * 1024"
  shows "single upload_enhanced env st (Some f) =
     (Inr (Some \<lparr> originalname = originalname f, mimetype = mimetype f,
                   stream_bytes = stream_bytes f, filename = uniqueName env f,
                   path = ''uploads/'' @ uniqueName env f \<rparr>),
      st\<lparr>disk := insert (''uploads/'' @ uniqueName env f) (disk st)\<rparr>)"
  using assms by (simp add: single_def upload_enhanced_def fileFilter_def too_large_def)

lemma single_first_accepts:
  assumes "mimetype f \<in> set allowedTypes" and "stream_bytes f \<le> 5 * 1024 * 1024"
  shows "single upload_first env st (Some f) =
     (Inr (Some \<lparr> originalname = originalname f, mimetype = mimetype f,
                   stream_bytes = stream_bytes f, filename = uniqueName env f,
                   path = ''uploads/'' @ uniqueName env f \<rparr>),
      st\<lparr>disk := insert (''uploads/'' @ uniqueName env f) (disk st)\<rparr>)"
  using assms by (simp add: single_def upload_first_def fileFilter_first_def too_large_def)

lemma single_router_accepts:
  assumes "prefix ''image/'' (mimetype f)"
  shows "single upload_router env st (Some f) =
     (Inr (Some \<lparr> originalname = originalname f, mimetype = mimetype f,
                   stream_bytes = stream_bytes f, filename = uniqueName env f,
                   path = ''uploads/payments/'' @ uniqueName env f \<rparr>),
      st\<lparr>disk := insert (''uploads/payments/'' @ uniqueName env f) (disk st)\<rparr>)"
  using assms by (simp add: single_def upload_router_def fileFilter_router_def too_large_def)

subsection \<open>Missing fields\<close>

lemma sublist_join: "g \<in> set xs \<Longrightarrow> sublist g (join sep xs)"
proof (induction sep xs rule: join.induct)
  case (3 sep x y ys)
  show ?case
  proof (cases "g = x")
    case True
    then show ?thesis by simp
  next
    case False
    with 3 have "sublist g (join sep (y # ys))" by simp
    then obtain ps ss where "join sep (y # ys) = ps @ g @ ss"
      by (auto simp: sublist_def)
    then have "join sep (x # y # ys) = (x @ sep @ ps) @ g @ ss" by simp
    then show ?thesis unfolding sublist_def by blast
  qed
qed auto

text \<open>
  C2, as amended. In the enhanced handler of server.js, a submission that carries an
  accepted file (declared type in the allow-set, at most 5 MiB) and leaves out, or leaves
  empty, at least one of the eight required fields is answered with status 400 and the
  message \<open>Missing required fields: \<close> followed by the absent fields joined by a comma:
  the fields listed are exactly the absent ones, the name of each absent field occurs in
  the message, and no order is stored.
\<close>

theorem missing_fields_named:
  assumes "attached req = Some f" and "mimetype f \<in> set allowedTypes"
    and "stream_bytes f \<le> 5 * 1024 * 1024"
    and "field \<in> set requiredFields" and "falsy (body req field)"
  shows "fst (server_POST env st req) =
           Fail 400 (''Missing required fields: '' @ join '', '' (missingFields (body req))) None
       \<and> set (missingFields (body req)) = {g \<in> set requiredFields. falsy (body req g)}
       \<and> (\<forall>g \<in> set requiredFields. falsy (body req g) \<longrightarrow>
             sublist g (''Missing required fields: '' @ join '', '' (missingFields (body req))))
       \<and> orders (snd (server_POST env st req)) = orders st"
proof -
  have m: "missingFields (body req) \<noteq> []"
    using assms(4,5) by (auto simp: missingFields_def filter_empty_conv)
  have s: "set (missingFields (body req)) = {g \<in> set requiredFields. falsy (body req g)}"
    by (auto simp: missingFields_def)
  have r: "server_POST env st req =
      (Fail 400 (''Missing required fields: '' @ join '', '' (missingFields (body req))) None,
       st\<lparr>disk := insert (''uploads/'' @ uniqueName env f) (disk st)\<rparr>)"
    using m
    by (simp add: server_POST_def assms(1) single_enhanced_accepts [OF assms(2,3)]
        post_orders_def)
  have n: "\<forall>g \<in> set requiredFields. falsy (body req g) \<longrightarrow>
             sublist g (''Missing required fields: '' @ join '', '' (missingFields (body req)))"
  proof (intro ballI impI)
    fix g assume "g \<in> set requiredFields" and "falsy (body req g)"
    then have "g \<in> set (missingFields (body req))" using s by simp
    then have "sublist g (join '', '' (missingFields (body req)))" by (rule sublist_join)
    then obtain ps ss where "join '', '' (missingFields (body req)) = ps @ g @ ss"
      by (auto simp: sublist_def)
    then have "''Missing required fields: '' @ join '', '' (missingFields (body req))
        = (''Missing required fields: '' @ ps) @ g @ ss" by simp
    then show "sublist g (''Missing required fields: '' @ join '', '' (missingFields (body req)))"
      unfolding sublist_def by blast
  qed
  show ?thesis using r s n by simp
qed

text \<open>The scenario without \<open>email\<close> and \<open>city\<close>: both are named.\<close>

theorem missing_fields_named_witness:
  "fst (server_POST demo_env empty_state
          (demo_request\<lparr>body := demo_body(''email'' := None, ''city'' := None)\<rparr>)) =
     Fail 400 ''Missing required fields: email, city'' None
   \<and> sublist ''email'' ''Missing required fields: email, city''
   \<and> sublist ''city'' ''Missing required fields: email, city''"
proof -
  let ?req = "demo_request\<lparr>body := demo_body(''email'' := None, ''city'' := None)\<rparr>"
  have m: "missingFields (body ?req) = [''email'', ''city'']"
    by (simp add: missingFields_def requiredFields_def falsy_def demo_defs)
  have "attached ?req = Some demo_upload" by (simp add: demo_defs)
  moreover have "mimetype demo_upload \<in> set allowedTypes"
    by (simp add: demo_defs allowedTypes_def)
  moreover have "stream_bytes demo_upload \<le> 5 * 1024 * 1024" by (simp add: demo_defs)
  moreover have "''email'' \<in> set requiredFields" by (simp add: requiredFields_def)
  moreover have "falsy (body ?req ''email'')" by (simp add: falsy_def demo_defs)
  ultimately have t: "fst (server_POST demo_env empty_state ?req) =
           Fail 400 (''Missing required fields: '' @ join '', '' (missingFields (body ?req))) None
       \<and> set (missingFields (body ?req)) = {g \<in> set requiredFields. falsy (body ?req g)}
       \<and> (\<forall>g \<in> set requiredFields. falsy (body ?req g) \<longrightarrow>
             sublist g (''Missing required fields: '' @ join '', '' (missingFields (body ?req))))
       \<and> orders (snd (server_POST demo_env empty_state ?req)) = orders empty_state"
    by (rule missing_fields_named)
  have c: "''city'' \<in> set requiredFields" "falsy (body ?req ''city'')"
    by (simp_all add: requiredFields_def falsy_def demo_defs)
  from t c \<open>''email'' \<in> set requiredFields\<close> \<open>falsy (body ?req ''email'')\<close>
  show ?thesis unfolding m by simp
qed

text \<open>
  The claim as stated fails on the other handlers, which answer with a fixed message:
  without \<open>email\<close> and \<open>city\<close>, \<open>router.post\<close> of routes/orders.js answers
  \<open>Required fields missing\<close> and the first handler of server.js \<open>All fields are required\<close>;
  neither message holds the name of a field.
\<close>

theorem missing_fields_counterexample:
  "fst (routes_POST demo_env empty_state
          (demo_request\<lparr>body := demo_body(''email'' := None, ''city'' := None)\<rparr>)) =
     Err 400 ''Required fields missing'' None
   \<and> fst (server_first_POST demo_env empty_state
          (demo_request\<lparr>body := demo_body(''email'' := None, ''city'' := None)\<rparr>)) =
     Fail 400 ''All fields are required'' None
   \<and> \<not> sublist ''email'' ''Required fields missing''
   \<and> \<not> sublist ''city'' ''Required fields missing''
   \<and> \<not> sublist ''email'' ''All fields are required''
   \<and> \<not> sublist ''city'' ''All fields are required''"
proof -
  have "\<not> sublist ''email'' ''Required fields missing''"
    and "\<not> sublist ''city'' ''Required fields missing''"
    and "\<not> sublist ''email'' ''All fields are required''"
    and "\<not> sublist ''city'' ''All fields are required''"
    by code_simp+
  then show ?thesis
    by (simp add: handler_defs demo_defs dec_demo Let_def)
qed

subsection \<open>What is stored and what the replies of the handlers are\<close>

lemma save_result:
  "save sch env st d = (r, st') \<Longrightarrow>
     (\<exists>e. r = Inl e \<and> st' = st) \<or>
     (\<exists>saved. r = Inr saved \<and> status saved = status d \<and> products saved = products d
        \<and> paymentScreenshot saved = paymentScreenshot d
        \<and> st' = st\<lparr>orders := orders st @ [saved]\<rparr>)"
  by (auto simp: save_def Let_def split: if_splits)

lemma new_Order_status [simp]:
  "status (new_Order sch env c ps amt shot None) = ''pending''"
  "status (new_Order sch env c ps amt shot (Some ''pending'')) = ''pending''"
  by (simp_all add: new_Order_def)

lemma single_state:
  "single opts env st part = (r, st') \<Longrightarrow> orders st' = orders st \<and> console st' = console st"
  by (auto simp: single_def split: option.splits if_splits)

lemma catch_orders [simp]:
  "orders (snd (catch_enhanced env st f e)) = orders st"
  "orders (snd (catch_first env st f e)) = orders st"
  "orders (snd (catch_router st e)) = orders st"
  by (auto simp: catch_enhanced_def catch_first_def catch_router_def console_error_def
      unlink_def Let_def split: option.splits prod.splits if_splits)

lemma catch_not_success [simp]:
  "fst (catch_enhanced env st f e) \<noteq> Success c ord"
  "fst (catch_first env st f e) \<noteq> Success c ord"
  "fst (catch_router st e) \<noteq> Success c ord"
  by (auto simp: catch_enhanced_def catch_first_def catch_router_def console_error_def
      unlink_def Let_def split: option.splits prod.splits if_splits)

lemma errorHandler_orders [simp]:
  "orders (snd (errorHandler env st err)) = orders st"
  "orders (snd (errorHandler_first env st err)) = orders st"
  "fst (errorHandler env st err) \<noteq> Success c ord"
  "fst (errorHandler_first env st err) \<noteq> Success c ord"
  by (auto simp: errorHandler_def errorHandler_first_def console_error_def split: thrown.splits)

text \<open>Each handler either stores nothing and does not answer with an order, or appends
  one order of status \<open>pending\<close> and answers 201 with it.\<close>

lemma post_orders_pending:
  "post_orders env st b f = (r, st') \<Longrightarrow>
     (orders st' = orders st \<and> (\<forall>c ord. r \<noteq> Success c ord)) \<or>
     (\<exists>ord. r = Success 201 ord \<and> status ord = ''pending'' \<and> orders st' = orders st @ [ord])"
  apply (simp add: post_orders_def split: option.splits if_splits prod.splits sum.splits)
     apply auto[3]
   apply (auto dest!: save_result)
  apply (metis catch_orders(1) snd_conv catch_not_success(1) fst_conv)+
  done

lemma post_orders_first_pending:
  "post_orders_first env st b f = (r, st') \<Longrightarrow>
     (orders st' = orders st \<and> (\<forall>c ord. r \<noteq> Success c ord)) \<or>
     (\<exists>ord. r = Success 201 ord \<and> status ord = ''pending'' \<and> orders st' = orders st @ [ord])"
  apply (simp add: post_orders_first_def split: option.splits if_splits prod.splits sum.splits)
     apply auto[3]
    apply (metis catch_orders(2) snd_conv catch_not_success(2) fst_conv)
   apply (auto dest!: save_result)
  apply (metis catch_orders(2) snd_conv catch_not_success(2) fst_conv)+
  done

lemma router_post_pending:
  "router_post env st b f = (r, st') \<Longrightarrow>
     (orders st' = orders st \<and> (\<forall>c ord. r \<noteq> Success c ord)) \<or>
     (\<exists>ord. r = Success 201 ord \<and> status ord = ''pending'' \<and> orders st' = orders st @ [ord])"
  apply (simp add: router_post_def
      split: option.splits if_splits prod.splits sum.splits bool.splits)
          apply (auto dest!: save_result)
  apply (metis catch_orders(3) snd_conv catch_not_success(3) fst_conv)+
  done

lemma unnamed_post_pending:
  "unnamed_post env st b f = (r, st') \<Longrightarrow>
     (orders st' = orders st \<and> (\<forall>c ord. r \<noteq> Success c ord)) \<or>
     (\<exists>ord. r = Success 201 ord \<and> status ord = ''pending'' \<and> orders st' = orders st @ [ord])"
  apply (simp add: unnamed_post_def
      split: option.splits if_splits prod.splits sum.splits bool.splits)
          apply (auto dest!: save_result)
  apply (metis catch_orders(3) snd_conv catch_not_success(3) fst_conv)+
  done

text \<open>The same for a handler behind the upload middleware, whatever handles the errors
  of the middleware, as long as it stores no order and answers with none.\<close>

lemma behind_upload_pending:
  assumes h: "\<And>st b f r st'. h env st b f = (r, st') \<Longrightarrow>
     (orders st' = orders st \<and> (\<forall>c ord. r \<noteq> Success c ord)) \<or>
     (\<exists>ord. r = Success 201 ord \<and> status ord = ''pending'' \<and> orders st' = orders st @ [ord])"
    and e: "\<And>st err. orders (snd (eh env st err)) = orders st
              \<and> (\<forall>c ord. fst (eh env st err) \<noteq> Success c ord)"
    and H: "H = (case single opts env st (attached req) of
                   (Inl err, st1) \<Rightarrow> eh env st1 err
                 | (Inr f, st1) \<Rightarrow> h env st1 (body req) f)"
  shows "(orders (snd H) = orders st \<and> (\<forall>c ord. fst H \<noteq> Success c ord)) \<or>
     (\<exists>ord. fst H = Success 201 ord \<and> status ord = ''pending''
         \<and> orders (snd H) = orders st @ [ord])"
proof (cases "single opts env st (attached req)")
  case (Pair r st1)
  note s = single_state [OF Pair]
  show ?thesis
  proof (cases r)
    case (Inl err)
    then show ?thesis using Pair s e [of st1 err] by (simp add: H)
  next
    case (Inr f)
    obtain q st2 where p: "h env st1 (body req) f = (q, st2)" by force
    from h [OF p] show ?thesis
      using Pair Inr s p by (simp add: H)
  qed
qed

lemma status_key_unread [simp]:
  "missingFields (b(''status'' := v)) = missingFields b"
  "customer_of (b(''status'' := v)) = customer_of b"
  by (simp_all add: missingFields_def requiredFields_def customer_of_def)

lemma body_status_ignored:
  "post_orders env st (b(''status'' := v)) f = post_orders env st b f"
  "post_orders_first env st (b(''status'' := v)) f = post_orders_first env st b f"
  "router_post env st (b(''status'' := v)) f = router_post env st b f"
  "unnamed_post env st (b(''status'' := v)) f = unnamed_post env st b f"
  by (simp_all add: post_orders_def post_orders_first_def router_post_def unnamed_post_def
      cong: option.case_cong if_cong bool.case_cong)

text \<open>
  C10. For each of the four submission handlers: a submission either stores no order and
  is not answered with one, or stores exactly one order, of status \<open>pending\<close>, and is
  answered 201 with it; and the reply and the new state do not depend on a \<open>status\<close>
  field of the request body, whatever its value \<open>v\<close> (absent or any string).
\<close>

theorem status_pending:
  assumes "H \<in> {server_first_POST, server_POST, routes_POST, unnamed_POST}"
  shows "((orders (snd (H env st req)) = orders st
            \<and> (\<forall>c ord. fst (H env st req) \<noteq> Success c ord)) \<or>
          (\<exists>ord. fst (H env st req) = Success 201 ord \<and> status ord = ''pending''
             \<and> orders (snd (H env st req)) = orders st @ [ord]))
       \<and> H env st (req\<lparr>body := (body req)(''status'' := v)\<rparr>) = H env st req"
proof -
  have u: "\<And>st err. orders (snd (Unhandled err, st)) = orders st
              \<and> (\<forall>c ord. fst (Unhandled err, st) \<noteq> Success c ord)"
    by simp
  have a: "(orders (snd (H env st req)) = orders st
            \<and> (\<forall>c ord. fst (H env st req) \<noteq> Success c ord)) \<or>
          (\<exists>ord. fst (H env st req) = Success 201 ord \<and> status ord = ''pending''
             \<and> orders (snd (H env st req)) = orders st @ [ord])"
    using assms
  proof (elim insertE emptyE)
    assume "H = server_first_POST"
    then show ?thesis
      by (intro behind_upload_pending [where h = post_orders_first
            and eh = errorHandler_first and opts = upload_first])
         (simp_all add: post_orders_first_pending server_first_POST_def)
  next
    assume "H = server_POST"
    then show ?thesis
      by (intro behind_upload_pending [where h = post_orders
            and eh = errorHandler and opts = upload_enhanced])
         (simp_all add: post_orders_pending server_POST_def)
  next
    assume "H = routes_POST"
    then show ?thesis
      by (intro behind_upload_pending [where h = router_post
            and eh = "\<lambda>env st err. (Unhandled err, st)" and opts = upload_router])
         (simp_all add: router_post_pending routes_POST_def)
  next
    assume "H = unnamed_POST"
    then show ?thesis
      by (intro behind_upload_pending [where h = unnamed_post
            and eh = "\<lambda>env st err. (Unhandled err, st)" and opts = upload_router])
         (simp_all add: unnamed_post_pending unnamed_POST_def)
  qed
  have b: "H env st (req\<lparr>body := (body req)(''status'' := v)\<rparr>) = H env st req"
    using assms
    by (elim insertE emptyE)
       (simp_all add: server_first_POST_def server_POST_def routes_POST_def unnamed_POST_def
          body_status_ignored cong: prod.case_cong sum.case_cong)
  from a b show ?thesis by simp
qed

text \<open>The scenario with \<open>status=shipped\<close> in the body: the order is stored as \<open>pending\<close>.\<close>

theorem status_pending_witness:
  "fst (server_POST demo_env empty_state
          (demo_request\<lparr>body := demo_body(''status'' \<mapsto> ''shipped'')\<rparr>)) = Success 201 demo_order
   \<and> status demo_order = ''pending''"
proof -
  have "server_POST \<in> {server_first_POST, server_POST, routes_POST, unnamed_POST}" by simp
  from status_pending [OF this, of demo_env empty_state demo_request "Some ''shipped''"]
  have "server_POST demo_env empty_state
          (demo_request\<lparr>body := demo_body(''status'' \<mapsto> ''shipped'')\<rparr>)
        = server_POST demo_env empty_state demo_request"
    by (simp add: demo_request_def)
  moreover have "server_POST demo_env empty_state demo_request =
     (Success 201 demo_order,
      empty_state\<lparr>disk := {''uploads/7-42.jpg''}, orders := [demo_order]\<rparr>)"
    by (simp add: handler_defs demo_defs dec_demo Let_def)
  ultimately show ?thesis by (simp add: demo_order_def)
qed

subsection \<open>The listing\<close>

lemma three_sorted:
  fixes f :: "'a \<Rightarrow> nat option"
  assumes m: "mset xs = {#a, b, c#}"
    and k: "f a = Some t1" "f b = Some t2" "f c = Some t3" "t1 < t2" "t2 < t3"
  shows "sort_key f xs = [a, b, c]"
proof (rule properties_for_sort_key)
  show "mset [a, b, c] = mset xs" using m by simp
  show "sorted (map f [a, b, c])" using k by simp
  fix e assume e: "e \<in> set [a, b, c]"
  have "mset (filter (\<lambda>x. f e = f x) xs) = mset (filter (\<lambda>x. f e = f x) [a, b, c])"
    using m by (simp only: mset_filter) simp
  moreover have one: "filter (\<lambda>x. f e = f x) [a, b, c] = [e]"
    using e k by auto
  ultimately have "mset (filter (\<lambda>x. f e = f x) xs) = {#e#}" by simp
  then have "filter (\<lambda>x. f e = f x) xs = [e]" by (simp only: mset_single_iff)
  with one show "filter (\<lambda>x. f e = f x) [a, b, c] = filter (\<lambda>x. f e = f x) xs"
    by simp
qed

lemma find_sorted_props:
  "mset (find_sorted key st) = mset (orders st)"
  "sorted (rev (map key (find_sorted key st)))"
  by (simp_all add: find_sorted_def rev_map)

lemma find_sorted_three:
  assumes "mset (orders st) = {#o1, o2, o3#}"
    and "key o1 = Some t1" "key o2 = Some t2" "key o3 = Some t3" "t1 < t2" "t2 < t3"
  shows "find_sorted key st = [o3, o2, o1]"
  using three_sorted [OF assms] by (simp add: find_sorted_def)

text \<open>
  C7, as amended. While the database answers, every listing handler returns all stored
  orders, and an empty collection gives the empty listing, not an error. The listing of
  the enhanced server.js and of the routers is sorted by descending \<open>orderDate\<close>: orders
  stored (in any order) with \<open>orderDate\<close> T1 < T2 < T3 are listed as [T3, T2, T1]. The
  first \<open>app.get\<close> of server.js sorts by descending \<open>createdAt\<close> instead: orders whose
  \<open>createdAt\<close> are T1 < T2 < T3 are listed as [T3, T2, T1].
\<close>

theorem listing_sorted:
  assumes "\<not> db_fails env"
  shows "(orders st = [] \<longrightarrow>
            server_GET env st = Listing [] \<and> routes_GET env st = (Listing [], st)
            \<and> server_first_GET env st = Listing [])
    \<and> (\<exists>ys. server_GET env st = Listing ys \<and> routes_GET env st = (Listing ys, st)
            \<and> mset ys = mset (orders st) \<and> sorted (rev (map orderDate ys)))
    \<and> (\<exists>zs. server_first_GET env st = Listing zs
            \<and> mset zs = mset (orders st) \<and> sorted (rev (map createdAt zs)))
    \<and> (\<forall>o1 o2 o3 t1 t2 t3.
          mset (orders st) = {#o1, o2, o3#} \<and> orderDate o1 = Some t1 \<and> orderDate o2 = Some t2
            \<and> orderDate o3 = Some t3 \<and> t1 < t2 \<and> t2 < t3
          \<longrightarrow> server_GET env st = Listing [o3, o2, o1]
              \<and> routes_GET env st = (Listing [o3, o2, o1], st))
    \<and> (\<forall>o1 o2 o3 t1 t2 t3.
          mset (orders st) = {#o1, o2, o3#} \<and> createdAt o1 = Some t1 \<and> createdAt o2 = Some t2
            \<and> createdAt o3 = Some t3 \<and> t1 < t2 \<and> t2 < t3
          \<longrightarrow> server_first_GET env st = Listing [o3, o2, o1])"
proof -
  have a: "orders st = [] \<longrightarrow>
            server_GET env st = Listing [] \<and> routes_GET env st = (Listing [], st)
            \<and> server_first_GET env st = Listing []"
    using assms
    by (simp add: server_GET_def routes_GET_def server_first_GET_def find_sorted_def)
  have b: "\<exists>ys. server_GET env st = Listing ys \<and> routes_GET env st = (Listing ys, st)
            \<and> mset ys = mset (orders st) \<and> sorted (rev (map orderDate ys))"
    using assms find_sorted_props [of orderDate st]
    by (simp add: server_GET_def routes_GET_def)
  have c: "\<exists>zs. server_first_GET env st = Listing zs
            \<and> mset zs = mset (orders st) \<and> sorted (rev (map createdAt zs))"
    using assms find_sorted_props [of createdAt st]
    by (simp add: server_first_GET_def)
  have d: "\<forall>o1 o2 o3 t1 t2 t3.
          mset (orders st) = {#o1, o2, o3#} \<and> orderDate o1 = Some t1 \<and> orderDate o2 = Some t2
            \<and> orderDate o3 = Some t3 \<and> t1 < t2 \<and> t2 < t3
          \<longrightarrow> server_GET env st = Listing [o3, o2, o1]
              \<and> routes_GET env st = (Listing [o3, o2, o1], st)"
    using assms by (auto simp: server_GET_def routes_GET_def find_sorted_three)
  have e: "\<forall>o1 o2 o3 t1 t2 t3.
          mset (orders st) = {#o1, o2, o3#} \<and> createdAt o1 = Some t1 \<and> createdAt o2 = Some t2
            \<and> createdAt o3 = Some t3 \<and> t1 < t2 \<and> t2 < t3
          \<longrightarrow> server_first_GET env st = Listing [o3, o2, o1]"
    using assms by (auto simp: server_first_GET_def find_sorted_three)
  from a b c d e show ?thesis by blast
qed

text \<open>Three orders stored as T2, T3, T1 are listed as T3, T2, T1 by the handlers that
  sort on \<open>orderDate\<close>, the empty collection gives the empty listing, and the first
  \<open>app.get\<close> lists the three by descending \<open>createdAt\<close>.\<close>

theorem listing_sorted_witness:
  "server_GET demo_env three_orders = Listing [late_order, middle_order, early_order]
   \<and> routes_GET demo_env three_orders
        = (Listing [late_order, middle_order, early_order], three_orders)
   \<and> server_GET demo_env empty_state = Listing []
   \<and> server_first_GET demo_env three_orders = Listing [early_order, middle_order, late_order]"
proof -
  have n: "\<not> db_fails demo_env" by (simp add: demo_env_def)
  have m': "mset (orders three_orders) = {#late_order, middle_order, early_order#}"
    by (simp add: three_orders_def empty_state_def)
  have k': "createdAt late_order = Some 7" "createdAt middle_order = Some 8"
    "createdAt early_order = Some 9"
    by (simp_all add: early_order_def middle_order_def late_order_def)
  have l': "(7::nat) < 8" "(8::nat) < 9" by simp_all
  from listing_sorted [OF n, of three_orders]
  have "\<forall>o1 o2 o3 t1 t2 t3.
          mset (orders three_orders) = {#o1, o2, o3#} \<and> createdAt o1 = Some t1
            \<and> createdAt o2 = Some t2 \<and> createdAt o3 = Some t3 \<and> t1 < t2 \<and> t2 < t3
          \<longrightarrow> server_first_GET demo_env three_orders = Listing [o3, o2, o1]"
    by (elim conjE)
  then have f: "server_first_GET demo_env three_orders
      = Listing [early_order, middle_order, late_order]"
    using m' k' l' by blast
  have m: "mset (orders three_orders) = {#early_order, middle_order, late_order#}"
    by (simp add: three_orders_def empty_state_def)
  have k: "orderDate early_order = Some 1" "orderDate middle_order = Some 2"
    "orderDate late_order = Some 3"
    by (simp_all add: early_order_def middle_order_def late_order_def)
  have z: "orders empty_state = []" by (simp add: empty_state_def)
  have l: "(1::nat) < 2" "(2::nat) < 3" by simp_all
  from listing_sorted [OF n, of three_orders]
  have "\<forall>o1 o2 o3 t1 t2 t3.
          mset (orders three_orders) = {#o1, o2, o3#} \<and> orderDate o1 = Some t1
            \<and> orderDate o2 = Some t2 \<and> orderDate o3 = Some t3 \<and> t1 < t2 \<and> t2 < t3
          \<longrightarrow> server_GET demo_env three_orders = Listing [o3, o2, o1]
              \<and> routes_GET demo_env three_orders = (Listing [o3, o2, o1], three_orders)"
    by (elim conjE)
  then have "server_GET demo_env three_orders = Listing [late_order, middle_order, early_order]
     \<and> routes_GET demo_env three_orders
        = (Listing [late_order, middle_order, early_order], three_orders)"
    using m k l by blast
  moreover from listing_sorted [OF n, of empty_state] z
  have "server_GET demo_env empty_state = Listing []" by blast
  ultimately show ?thesis using f by simp
qed

lemma order_keys:
  "createdAt early_order = Some 9" "createdAt middle_order = Some 8"
  "createdAt late_order = Some 7"
  "orderDate early_order = Some 1" "orderDate middle_order = Some 2"
  "orderDate late_order = Some 3"
  by (simp_all add: early_order_def middle_order_def late_order_def)

text \<open>
  The claim as stated fails on the first \<open>app.get\<close> of server.js (lines 137-144), which
  sorts on \<open>createdAt\<close>: the three orders, whose \<open>orderDate\<close> are 1, 2 and 3, come back
  as 1, 2, 3 and not as 3, 2, 1.
\<close>

theorem listing_counterexample:
  "server_first_GET demo_env three_orders = Listing [early_order, middle_order, late_order]
   \<and> map orderDate [early_order, middle_order, late_order] = [Some 1, Some 2, Some 3]"
proof -
  have "orders three_orders = [middle_order, late_order, early_order]"
    by (simp add: three_orders_def empty_state_def)
  then have "find_sorted createdAt three_orders = [early_order, middle_order, late_order]"
    by (simp add: find_sorted_def order_keys)
  moreover have "\<not> db_fails demo_env" by (simp add: demo_env_def)
  ultimately show ?thesis by (simp add: server_first_GET_def order_keys)
qed

subsection \<open>The type of the upload\<close>

text \<open>
  C3, as amended. For a submission with a file part: the filter of server.js (both
  versions) accepts exactly the declared types \<open>image/jpeg\<close>, \<open>image/png\<close> and
  \<open>image/jpg\<close>; any other declared type is refused before the handler runs, nothing is
  written to the upload directory, no order is stored, and the error handler answers
  (400 with the message of the multer error in the enhanced version, 500 in the first).
  The filter of the routers (routes/orders.js, unnamed/part\_000) accepts exactly the
  declared types that start with \<open>image/\<close> and passes its error on for any other, again
  with nothing written or stored. A file declared as \<open>application/pdf\<close> is refused by
  all of them, whatever the rest of the payload.
\<close>

theorem upload_type_gate:
  assumes "attached req = Some f"
  shows "(mimetype f \<notin> set allowedTypes \<longrightarrow>
            server_POST env st req =
              (Fail 400 ''Unexpected field'' None,
               console_error ''Server error:''
                 (Some (MulterError ''LIMIT_UNEXPECTED_FILE''
                    ''Invalid file type. Only JPEG, JPG, and PNG are allowed!'')) st)
          \<and> server_first_POST env st req =
              (Fail 500 ''Something went wrong!'' None,
               console_error []
                 (Some (Error_msg ''Invalid file type. Only JPEG, JPG, and PNG are allowed!''))
                 st))
      \<and> (mimetype f \<in> set allowedTypes \<longrightarrow> fileFilter f = None \<and> fileFilter_first f = None)
      \<and> (\<not> prefix ''image/'' (mimetype f) \<longrightarrow>
            routes_POST env st req = (Unhandled (Error_msg ''Only image files are allowed!''), st)
          \<and> unnamed_POST env st req
              = (Unhandled (Error_msg ''Only image files are allowed!''), st))
      \<and> (prefix ''image/'' (mimetype f) \<longrightarrow> fileFilter_router f = None)
      \<and> (mimetype f = ''application/pdf'' \<longrightarrow>
            mimetype f \<notin> set allowedTypes \<and> \<not> prefix ''image/'' (mimetype f))"
  using assms
  by (auto simp: server_POST_def server_first_POST_def routes_POST_def unnamed_POST_def
      single_def upload_enhanced_def upload_first_def upload_router_def
      fileFilter_def fileFilter_first_def fileFilter_router_def errorHandler_def
      errorHandler_first_def multer_message_def allowedTypes_def)

text \<open>The scenario with a file declared as \<open>application/pdf\<close>.\<close>

theorem upload_type_gate_witness:
  "server_POST demo_env empty_state pdf_request =
     (Fail 400 ''Unexpected field'' None,
      console_error ''Server error:''
        (Some (MulterError ''LIMIT_UNEXPECTED_FILE''
           ''Invalid file type. Only JPEG, JPG, and PNG are allowed!'')) empty_state)
   \<and> server_first_POST demo_env empty_state pdf_request =
     (Fail 500 ''Something went wrong!'' None,
      console_error []
        (Some (Error_msg ''Invalid file type. Only JPEG, JPG, and PNG are allowed!''))
        empty_state)
   \<and> routes_POST demo_env empty_state pdf_request
       = (Unhandled (Error_msg ''Only image files are allowed!''), empty_state)
   \<and> unnamed_POST demo_env empty_state pdf_request
       = (Unhandled (Error_msg ''Only image files are allowed!''), empty_state)
   \<and> fileFilter demo_upload = None \<and> fileFilter_first demo_upload = None
   \<and> fileFilter_router demo_upload = None"
proof -
  let ?f = "demo_upload\<lparr>mimetype := ''application/pdf''\<rparr>"
  have a: "attached pdf_request = Some ?f" by (simp add: pdf_request_def)
  have b: "mimetype ?f \<notin> set allowedTypes" by (simp add: allowedTypes_def)
  have c: "\<not> prefix ''image/'' (mimetype ?f)" by simp
  have a': "attached demo_request = Some demo_upload" by (simp add: demo_request_def)
  have b': "mimetype demo_upload \<in> set allowedTypes"
    by (simp add: allowedTypes_def demo_upload_def)
  have c': "prefix ''image/'' (mimetype demo_upload)" by (simp add: demo_upload_def)
  from upload_type_gate [OF a, of demo_env empty_state] b c
    upload_type_gate [OF a', of demo_env empty_state] b' c'
  show ?thesis by blast
qed

text \<open>
  The claim as stated fails on the routers: \<open>image/gif\<close> is outside the allow-set, and
  \<open>router.post\<close> of routes/orders.js stores the file and the order.
\<close>

theorem upload_type_counterexample:
  "''image/gif'' \<notin> set allowedTypes
   \<and> routes_POST demo_env empty_state gif_request =
       (Success 201 routed_order,
        empty_state\<lparr>disk := {''uploads/payments/7-42.jpg''}, orders := [routed_order]\<rparr>)"
  by (simp add: handler_defs demo_defs routed_order_def gif_request_def dec_demo Let_def)

subsection \<open>The size of the upload\<close>

text \<open>
  C6, as amended. In server.js (both versions, \<open>limits.fileSize\<close> = 5 * 1024 * 1024), an
  upload of an accepted type whose byte stream is longer than 5 MiB is refused before
  the handler runs: nothing stays in the upload directory, no order is stored, and the
  error handler answers (400 \<open>File too large\<close> in the enhanced version, 500 in the
  first); an upload of at most 5 MiB is stored and handed to the handler. The routers
  configure no limit and refuse no upload for its size.
\<close>

theorem upload_size_gate:
  assumes "attached req = Some f" and "mimetype f \<in> set allowedTypes"
  shows "(5 * 1024 * 1024 < stream_bytes f \<longrightarrow>
            server_POST env st req =
              (Fail 400 ''File too large'' None,
               console_error ''Server error:''
                 (Some (MulterError ''LIMIT_FILE_SIZE'' ''paymentScreenshot'')) st)
          \<and> server_first_POST env st req =
              (Fail 500 ''Something went wrong!'' None,
               console_error [] (Some (MulterError ''LIMIT_FILE_SIZE'' ''paymentScreenshot'')) st))
      \<and> (stream_bytes f \<le> 5 * 1024 * 1024 \<longrightarrow>
            server_POST env st req =
              post_orders env (st\<lparr>disk := insert (''uploads/'' @ uniqueName env f) (disk st)\<rparr>)
                (body req)
                (Some \<lparr> originalname = originalname f, mimetype = mimetype f,
                   stream_bytes = stream_bytes f, filename = uniqueName env f,
                   path = ''uploads/'' @ uniqueName env f \<rparr>)
          \<and> server_first_POST env st req =
              post_orders_first env
                (st\<lparr>disk := insert (''uploads/'' @ uniqueName env f) (disk st)\<rparr>)
                (body req)
                (Some \<lparr> originalname = originalname f, mimetype = mimetype f,
                   stream_bytes = stream_bytes f, filename = uniqueName env f,
                   path = ''uploads/'' @ uniqueName env f \<rparr>))"
proof (intro conjI impI)
  assume "stream_bytes f \<le> 5 * 1024 * 1024"
  then show "server_POST env st req =
              post_orders env (st\<lparr>disk := insert (''uploads/'' @ uniqueName env f) (disk st)\<rparr>)
                (body req)
                (Some \<lparr> originalname = originalname f, mimetype = mimetype f,
                   stream_bytes = stream_bytes f, filename = uniqueName env f,
                   path = ''uploads/'' @ uniqueName env f \<rparr>)"
    and "server_first_POST env st req =
              post_orders_first env
                (st\<lparr>disk := insert (''uploads/'' @ uniqueName env f) (disk st)\<rparr>)
                (body req)
                (Some \<lparr> originalname = originalname f, mimetype = mimetype f,
                   stream_bytes = stream_bytes f, filename = uniqueName env f,
                   path = ''uploads/'' @ uniqueName env f \<rparr>)"
    using assms
    by (simp_all add: server_POST_def server_first_POST_def single_enhanced_accepts
        single_first_accepts)
next
  assume "5 * 1024 * 1024 < stream_bytes f"
  then show "server_POST env st req =
              (Fail 400 ''File too large'' None,
               console_error ''Server error:''
                 (Some (MulterError ''LIMIT_FILE_SIZE'' ''paymentScreenshot'')) st)"
    and "server_first_POST env st req =
              (Fail 500 ''Something went wrong!'' None,
               console_error [] (Some (MulterError ''LIMIT_FILE_SIZE'' ''paymentScreenshot'')) st)"
    using assms
    by (simp_all add: server_POST_def server_first_POST_def single_def upload_enhanced_def
        upload_first_def fileFilter_def fileFilter_first_def too_large_def errorHandler_def
        errorHandler_first_def multer_message_def)
qed

text \<open>One byte over the limit is refused; exactly 5 MiB goes through to the handler.\<close>

theorem upload_size_gate_witness:
  "server_POST demo_env empty_state (sized_request (5 * 1024 * 1024 + 1)) =
     (Fail 400 ''File too large'' None,
      console_error ''Server error:''
        (Some (MulterError ''LIMIT_FILE_SIZE'' ''paymentScreenshot'')) empty_state)
   \<and> fst (server_POST demo_env empty_state (sized_request (5 * 1024 * 1024)))
       = Success 201 demo_order"
proof -
  let ?big = "demo_upload\<lparr>stream_bytes := 5 * 1024 * 1024 + 1\<rparr>"
  let ?fit = "demo_upload\<lparr>stream_bytes := 5 * 1024 * 1024\<rparr>"
  have a: "attached (sized_request (5 * 1024 * 1024 + 1)) = Some ?big"
    and a': "attached (sized_request (5 * 1024 * 1024)) = Some ?fit"
    by (simp_all add: sized_request_def)
  have b: "mimetype ?big \<in> set allowedTypes" and b': "mimetype ?fit \<in> set allowedTypes"
    by (simp_all add: allowedTypes_def demo_upload_def)
  have c: "5 * 1024 * 1024 < stream_bytes ?big" and c': "stream_bytes ?fit \<le> 5 * 1024 * 1024"
    by simp_all
  from upload_size_gate [OF a b, of demo_env empty_state] c
  have "server_POST demo_env empty_state (sized_request (5 * 1024 * 1024 + 1)) =
     (Fail 400 ''File too large'' None,
      console_error ''Server error:''
        (Some (MulterError ''LIMIT_FILE_SIZE'' ''paymentScreenshot'')) empty_state)"
    by blast
  moreover from upload_size_gate [OF a' b', of demo_env empty_state] c'
  have "server_POST demo_env empty_state (sized_request (5 * 1024 * 1024)) =
      post_orders demo_env
        (empty_state\<lparr>disk := insert (''uploads/'' @ uniqueName demo_env ?fit) (disk empty_state)\<rparr>)
        (body (sized_request (5 * 1024 * 1024)))
        (Some \<lparr> originalname = originalname ?fit, mimetype = mimetype ?fit,
                 stream_bytes = stream_bytes ?fit, filename = uniqueName demo_env ?fit,
                 path = ''uploads/'' @ uniqueName demo_env ?fit \<rparr>)"
    by blast
  then have "fst (server_POST demo_env empty_state (sized_request (5 * 1024 * 1024)))
       = Success 201 demo_order"
    by (simp add: handler_defs demo_defs sized_request_def dec_demo Let_def)
  ultimately show ?thesis by simp
qed

text \<open>
  The claim as stated fails on the routers: routes/orders.js lines 23-32 hand \<open>multer\<close>
  no \<open>limits\<close>, and a file of 6 MiB is stored together with the order.
\<close>

theorem upload_size_counterexample:
  "5 * 1024 * 1024 < stream_bytes (demo_upload\<lparr>stream_bytes := 6 * 1024 * 1024\<rparr>)
   \<and> fst (routes_POST demo_env empty_state (sized_request (6 * 1024 * 1024)))
       = Success 201 routed_order
   \<and> disk (snd (routes_POST demo_env empty_state (sized_request (6 * 1024 * 1024))))
       = {''uploads/payments/7-42.jpg''}"
  by (simp add: handler_defs demo_defs routed_order_def sized_request_def dec_demo Let_def)

subsection \<open>The product list\<close>

text \<open>
  C4, as amended. For a submission whose \<open>products\<close> field is present and not empty:
  in the routers (routes/orders.js, unnamed/part\_000), if the field parses to the empty
  list and the upload middleware lets the request through (no file, or one declared as
  \<open>image/...\<close>), the answer is 400 \<open>Cart cannot be empty\<close> and no order is stored,
  whatever the other fields are; in the enhanced handler of server.js, if the field is
  not well-formed JSON, the file is accepted and no required field is missing, the answer
  is 400 \<open>Invalid products format\<close> and no order is stored.
\<close>

theorem products_checks:
  assumes "body req ''products'' = Some s" and "s \<noteq> []"
  shows "(JSON_parse env s = Some (JArr [])
            \<and> (\<forall>f. attached req = Some f \<longrightarrow> prefix ''image/'' (mimetype f)) \<longrightarrow>
            fst (routes_POST env st req) = Err 400 ''Cart cannot be empty'' None
          \<and> fst (unnamed_POST env st req) = Err 400 ''Cart cannot be empty'' None
          \<and> orders (snd (routes_POST env st req)) = orders st
          \<and> orders (snd (unnamed_POST env st req)) = orders st)
      \<and> (JSON_parse env s = None \<and> missingFields (body req) = []
            \<and> (\<exists>f. attached req = Some f \<and> mimetype f \<in> set allowedTypes
                  \<and> stream_bytes f \<le> 5 * 1024 * 1024) \<longrightarrow>
            fst (server_POST env st req) = Fail 400 ''Invalid products format'' None
          \<and> orders (snd (server_POST env st req)) = orders st)"
proof (intro conjI impI)
  assume h: "JSON_parse env s = Some (JArr [])
            \<and> (\<forall>f. attached req = Some f \<longrightarrow> prefix ''image/'' (mimetype f))"
  have r: "\<And>st1 f. router_post env st1 (body req) f = (Err 400 ''Cart cannot be empty'' None, st1)"
    using assms h by (simp add: router_post_def falsy_def JSON_parse_field_def)
  have u: "\<And>st1 f. unnamed_post env st1 (body req) f = (Err 400 ''Cart cannot be empty'' None, st1)"
    using assms h by (simp add: unnamed_post_def falsy_def JSON_parse_field_def)
  obtain q st1 where s: "single upload_router env st (attached req) = (Inr q, st1)"
    "orders st1 = orders st"
    using h by (cases "attached req") (auto simp: single_def upload_router_def
        fileFilter_router_def too_large_def)
  show "fst (routes_POST env st req) = Err 400 ''Cart cannot be empty'' None"
    and "fst (unnamed_POST env st req) = Err 400 ''Cart cannot be empty'' None"
    and "orders (snd (routes_POST env st req)) = orders st"
    and "orders (snd (unnamed_POST env st req)) = orders st"
    using s r u by (simp_all add: routes_POST_def unnamed_POST_def)
next
  assume h: "JSON_parse env s = None \<and> missingFields (body req) = []
            \<and> (\<exists>f. attached req = Some f \<and> mimetype f \<in> set allowedTypes
                  \<and> stream_bytes f \<le> 5 * 1024 * 1024)"
  then obtain f where f: "attached req = Some f" "mimetype f \<in> set allowedTypes"
    "stream_bytes f \<le> 5 * 1024 * 1024" by blast
  show "fst (server_POST env st req) = Fail 400 ''Invalid products format'' None"
    and "orders (snd (server_POST env st req)) = orders st"
    using assms h f
    by (simp_all add: server_POST_def single_enhanced_accepts post_orders_def
        JSON_parse_field_def)
qed

text \<open>The scenario with \<open>products='[]'\<close> on the routers and with \<open>products='oops'\<close> on
  the enhanced handler.\<close>

theorem products_checks_witness:
  "fst (routes_POST demo_env empty_state empty_cart_request) = Err 400 ''Cart cannot be empty'' None
   \<and> fst (unnamed_POST demo_env empty_state empty_cart_request)
       = Err 400 ''Cart cannot be empty'' None
   \<and> fst (server_POST demo_env empty_state malformed_request)
       = Fail 400 ''Invalid products format'' None"
proof -
  have a: "body empty_cart_request ''products'' = Some ''[]''" "''[]'' \<noteq> []"
    and b: "body malformed_request ''products'' = Some ''oops''" "''oops'' \<noteq> []"
    by (simp_all add: demo_defs empty_cart_request_def malformed_request_def)
  have c: "JSON_parse demo_env ''[]'' = Some (JArr [])
            \<and> (\<forall>f. attached empty_cart_request = Some f \<longrightarrow> prefix ''image/'' (mimetype f))"
    by (simp add: demo_defs empty_cart_request_def malformed_request_def)
  have d: "JSON_parse demo_env ''oops'' = None \<and> missingFields (body malformed_request) = []
            \<and> (\<exists>f. attached malformed_request = Some f \<and> mimetype f \<in> set allowedTypes
                  \<and> stream_bytes f \<le> 5 * 1024 * 1024)"
    by (simp add: demo_defs empty_cart_request_def malformed_request_def missingFields_def
        requiredFields_def falsy_def allowedTypes_def)
  from products_checks [OF a, of demo_env empty_state] c
    products_checks [OF b, of demo_env empty_state] d
  show ?thesis by blast
qed

text \<open>
  The claim as stated fails on the enhanced handler of server.js: a product list that
  parses to the empty list is answered 201 when the other fields are valid, and a
  malformed \<open>products\<close> field is answered with the list of missing fields when one is
  missing.
\<close>

theorem products_counterexample:
  "JSON_parse demo_env ''[]'' = Some (JArr [])
   \<and> fst (server_POST demo_env empty_state empty_cart_request)
       = Success 201 (demo_order\<lparr>products := []\<rparr>)
   \<and> JSON_parse demo_env ''oops'' = None
   \<and> fst (server_POST demo_env empty_state
            (demo_request\<lparr>body := demo_body(''products'' \<mapsto> ''oops'', ''email'' := None)\<rparr>))
       = Fail 400 ''Missing required fields: email'' None"
  by (simp add: handler_defs demo_defs empty_cart_request_def dec_demo Let_def)

subsection \<open>Invalid field values\<close>

lemma nothing_missing:
  assumes "missingFields b = []"
  shows "\<not> falsy (b ''name'')" "\<not> falsy (b ''email'')" "\<not> falsy (b ''phone'')"
    "\<not> falsy (b ''address'')" "\<not> falsy (b ''pincode'')" "\<not> falsy (b ''city'')"
    "\<not> falsy (b ''totalAmount'')" "\<not> falsy (b ''products'')"
  using assms by (simp_all add: missingFields_def requiredFields_def split: if_splits)

lemma line_errors_kind:
  "(p, v) \<in> set (line_errors env sch i xs) \<Longrightarrow> v = V_line \<and> prefix ''products.'' p"
  by (induction xs arbitrary: i) (auto split: if_splits)

lemma validate_enhanced:
  fixes env :: env and j :: json and shot :: string
  assumes "missingFields b = []"
    and "b ''email'' = Some e" and "b ''phone'' = Some p" and "b ''totalAmount'' = Some t"
  defines "errs \<equiv> validate Server_enhanced env
      (new_Order Server_enhanced env (customer_of b) j
         (Numeric (Number_field env (b ''totalAmount''))) shot None)"
  shows "((''customerInfo.email'', V_match) \<in> set errs \<longleftrightarrow> \<not> email_match e)"
    and "((''customerInfo.phone'', V_validate) \<in> set errs \<longleftrightarrow> \<not> phone_test p)"
    and "(''totalAmount'' \<in> fst ` set errs \<longleftrightarrow> \<not> at_least_zero (Number_js env t))"
proof -
  note n = nothing_missing [OF assms(1)]
  have e: "e \<noteq> []" and p: "p \<noteq> []"
    using n(2,3) assms(2,3) by (simp_all add: falsy_def)
  have l: "\<And>q v. (q, v) \<in> set (line_errors env Server_enhanced 0 (castArray j)) \<Longrightarrow>
      v = V_line \<and> prefix ''products.'' q"
    by (rule line_errors_kind)
  show "((''customerInfo.email'', V_match) \<in> set errs \<longleftrightarrow> \<not> email_match e)"
    using n e p assms(2-4) l
    by (auto simp: errs_def validate_def new_Order_def customer_of_def required_string_def
        email_errors_def phone_errors_def total_errors_def status_errors_def status_enum_def
        Number_field_def split: if_splits)
  show "((''customerInfo.phone'', V_validate) \<in> set errs \<longleftrightarrow> \<not> phone_test p)"
    using n e p assms(2-4) l
    by (auto simp: errs_def validate_def new_Order_def customer_of_def required_string_def
        email_errors_def phone_errors_def total_errors_def status_errors_def status_enum_def
        Number_field_def split: if_splits)
  have t: "''totalAmount'' \<notin> fst ` set (line_errors env Server_enhanced 0 (castArray j))"
    using l by fastforce
  show "(''totalAmount'' \<in> fst ` set errs \<longleftrightarrow> \<not> at_least_zero (Number_js env t))"
    using n e p assms(2-4) t
    by (auto simp: errs_def validate_def new_Order_def customer_of_def required_string_def
        email_errors_def phone_errors_def total_errors_def status_errors_def status_enum_def
        Number_field_def image_Un split: if_splits)
qed

text \<open>
  C5, as amended. In the enhanced handler of server.js, for a submission with an accepted
  file, all required fields and a \<open>products\<close> field that parses: if the email does not
  match \<open>/.+\@.+\..+/\<close>, the phone is not exactly ten digits, or \<open>Number(totalAmount)\<close>
  is not a number of at least zero, then \<open>save\<close> fails with one validation error that
  holds an entry for each of the three fields that is invalid (and for none that is
  valid); the error is written to the console, no order is stored, the stored file is
  deleted unless the deletion itself fails, and the answer is 500
  \<open>Failed to create order\<close>, which carries the validation error only when
  \<open>NODE_ENV\<close> is \<open>development\<close>.
\<close>

theorem invalid_values_rejected:
  assumes "attached req = Some f" and "mimetype f \<in> set allowedTypes"
    and "stream_bytes f \<le> 5 * 1024 * 1024"
    and "missingFields (body req) = []"
    and "body req ''email'' = Some e" and "body req ''phone'' = Some p"
    and "body req ''totalAmount'' = Some t" and "body req ''products'' = Some s"
    and "JSON_parse env s = Some j"
    and "\<not> email_match e \<or> \<not> phone_test p \<or> \<not> at_least_zero (Number_js env t)"
  shows "\<exists>errs.
       fst (server_POST env st req) =
         Fail 500 ''Failed to create order''
           (if NODE_ENV env = ''development'' then Some (ValidationError errs) else None)
     \<and> ((''customerInfo.email'', V_match) \<in> set errs \<longleftrightarrow> \<not> email_match e)
     \<and> ((''customerInfo.phone'', V_validate) \<in> set errs \<longleftrightarrow> \<not> phone_test p)
     \<and> (''totalAmount'' \<in> fst ` set errs \<longleftrightarrow> \<not> at_least_zero (Number_js env t))
     \<and> Log ''Order creation error:'' (Some (ValidationError errs))
           \<in> set (console (snd (server_POST env st req)))
     \<and> orders (snd (server_POST env st req)) = orders st
     \<and> (unlink_fails env \<or>
          ''uploads/'' @ uniqueName env f \<notin> disk (snd (server_POST env st req)))"
proof -
  define shot where "shot = ''/uploads/'' @ uniqueName env f"
  define errs where "errs = validate Server_enhanced env
      (new_Order Server_enhanced env (customer_of (body req)) j
         (Numeric (Number_field env (body req ''totalAmount''))) shot None)"
  note v = validate_enhanced [OF assms(4-7), of env j shot, folded errs_def]
  have ne: "errs \<noteq> []"
    using v assms(10) by auto
  define fl where "fl = \<lparr> originalname = originalname f, mimetype = mimetype f,
                   stream_bytes = stream_bytes f, filename = uniqueName env f,
                   path = ''uploads/'' @ uniqueName env f \<rparr>"
  define st1 where "st1 = st\<lparr>disk := insert (''uploads/'' @ uniqueName env f) (disk st)\<rparr>"
  have r: "server_POST env st req = catch_enhanced env st1 (Some fl) (ValidationError errs)"
    using assms(1,4,8,9) ne
    by (simp add: server_POST_def single_enhanced_accepts [OF assms(2,3)] post_orders_def
        JSON_parse_field_def save_def errs_def shot_def fl_def st1_def)
  have c: "fst (catch_enhanced env st1 (Some fl) (ValidationError errs)) =
         Fail 500 ''Failed to create order''
           (if NODE_ENV env = ''development'' then Some (ValidationError errs) else None)"
    "Log ''Order creation error:'' (Some (ValidationError errs))
           \<in> set (console (snd (catch_enhanced env st1 (Some fl) (ValidationError errs))))"
    "orders (snd (catch_enhanced env st1 (Some fl) (ValidationError errs))) = orders st"
    "unlink_fails env \<or> ''uploads/'' @ uniqueName env f
        \<notin> disk (snd (catch_enhanced env st1 (Some fl) (ValidationError errs)))"
    by (simp_all add: catch_enhanced_def console_error_def unlink_def Let_def fl_def st1_def)
  from r c v show ?thesis by auto
qed

text \<open>The scenario with \<open>phone="12345"\<close> in development mode: the error names the
  phone and neither the email nor the total, nothing is stored and the file is gone.\<close>

theorem invalid_values_rejected_witness:
  "\<exists>errs.
     fst (server_POST (demo_env\<lparr>NODE_ENV := ''development''\<rparr>) empty_state short_phone_request)
       = Fail 500 ''Failed to create order'' (Some (ValidationError errs))
     \<and> (''customerInfo.phone'', V_validate) \<in> set errs
     \<and> (''customerInfo.email'', V_match) \<notin> set errs
     \<and> ''totalAmount'' \<notin> fst ` set errs
     \<and> orders (snd (server_POST (demo_env\<lparr>NODE_ENV := ''development''\<rparr>) empty_state
                       short_phone_request)) = []
     \<and> ''uploads/7-42.jpg''
          \<notin> disk (snd (server_POST (demo_env\<lparr>NODE_ENV := ''development''\<rparr>) empty_state
                          short_phone_request))"
proof -
  let ?env = "demo_env\<lparr>NODE_ENV := ''development''\<rparr>"
  have a: "attached short_phone_request = Some demo_upload"
    "mimetype demo_upload \<in> set allowedTypes" "stream_bytes demo_upload \<le> 5 * 1024 * 1024"
    "missingFields (body short_phone_request) = []"
    "body short_phone_request ''email'' = Some ''a@b.com''"
    "body short_phone_request ''phone'' = Some ''12345''"
    "body short_phone_request ''totalAmount'' = Some ''100''"
    "body short_phone_request ''products'' = Some widget"
    by (simp_all add: demo_defs short_phone_request_def allowedTypes_def missingFields_def
        requiredFields_def falsy_def)
  have b: "JSON_parse ?env widget = Some (JArr [JObj [(''productId'', JStr ''p1''),
      (''name'', JStr ''Widget''), (''price'', JNum (Fin 100)), (''quantity'', JNum (Fin 1))]])"
    by (simp add: demo_defs short_phone_request_def)
  have c: "email_match ''a@b.com''" "\<not> phone_test ''12345''"
    "at_least_zero (Number_js ?env ''100'')"
    by (simp_all add: phone_test_def dot_def demo_env_def)
  then have d: "\<not> email_match ''a@b.com'' \<or> \<not> phone_test ''12345''
      \<or> \<not> at_least_zero (Number_js ?env ''100'')" by simp
  have u: "uniqueName ?env demo_upload = ''7-42.jpg''" "\<not> unlink_fails ?env"
    "NODE_ENV ?env = ''development''"
    by (simp_all add: uniqueName_def demo_defs short_phone_request_def dec_demo)
  from invalid_values_rejected [OF a b d, of empty_state] c u
  show ?thesis by (simp add: empty_state_def) blast
qed

text \<open>
  The claim as stated fails on the routers, whose model (models/Order.js) declares no
  validator for the phone: \<open>router.post\<close> of routes/orders.js stores the order with the
  phone \<open>12345\<close>. On the enhanced handler of server.js outside development mode the
  answer names no field.
\<close>

theorem invalid_values_counterexample:
  "\<not> phone_test ''12345''
   \<and> fst (routes_POST demo_env empty_state short_phone_request) =
       Success 201 (routed_order\<lparr>customerInfo :=
                      (customerInfo routed_order)\<lparr>phone := Some ''12345''\<rparr>\<rparr>)
   \<and> fst (server_POST demo_env empty_state short_phone_request) =
       Fail 500 ''Failed to create order'' None"
  by (simp add: handler_defs demo_defs routed_order_def short_phone_request_def dec_demo
      Let_def)

subsection \<open>Where the code falls short of the specification\<close>

text \<open>
  C1 asks that the stored file be deleted whenever validation fails after the upload.
  The enhanced handler of server.js deletes it in its \<open>catch\<close> (lines 362-366) but not on
  its early returns (lines 321-326 and 331-336): in the scenario without \<open>email\<close>, and in
  the scenario with \<open>products='oops'\<close>, the answer is 400 and the file written by the
  upload middleware is still in the upload directory.
\<close>

theorem upload_left_behind:
  "server_POST demo_env empty_state no_email_request =
     (Fail 400 ''Missing required fields: email'' None,
      empty_state\<lparr>disk := {''uploads/7-42.jpg''}\<rparr>)
   \<and> server_POST demo_env empty_state malformed_request =
     (Fail 400 ''Invalid products format'' None,
      empty_state\<lparr>disk := {''uploads/7-42.jpg''}\<rparr>)"
  by (simp add: handler_defs demo_defs malformed_request_def no_email_request_def dec_demo
      Let_def)

text \<open>
  C8 asks that no order be stored with an empty product list. The routers refuse an empty
  list (\<open>Cart cannot be empty\<close>); the handlers of server.js have no such check, and in
  the scenario with \<open>products='[]'\<close> both store an order whose product list is empty.
\<close>

theorem empty_products_stored:
  "map products (orders (snd (server_POST demo_env empty_state empty_cart_request))) = [[]]
   \<and> map products (orders (snd (server_first_POST demo_env empty_state empty_cart_request)))
       = [[]]"
  by (simp add: handler_defs demo_defs empty_cart_request_def dec_demo Let_def)

text \<open>The rest of the invariant holds: every order a handler stores refers to the stored
  file by a non-empty path, and the orders the routers store have at least one product
  line.\<close>

lemma single_path:
  "single opts env st part = (Inr (Some fl), st') \<Longrightarrow>
     path fl = destination opts @ filename fl \<and> orders st' = orders st"
  by (auto simp: single_def split: option.splits if_splits)

lemma new_Order_fields [simp]:
  "paymentScreenshot (new_Order sch env c ps amt shot s) = Some shot"
  "products (new_Order sch env c ps amt shot s) = castArray ps"
  by (simp_all add: new_Order_def)

lemma castArray_not_empty:
  "length_is_zero j = Some False \<Longrightarrow> castArray j \<noteq> []"
  "isArray j \<Longrightarrow> j \<noteq> JArr [] \<Longrightarrow> castArray j \<noteq> []"
  by (cases j; simp)+

lemma server_bodies_screenshot:
  "post_orders env st b f = (r, st') \<Longrightarrow>
     orders st' = orders st \<or>
     (\<exists>ord p. orders st' = orders st @ [ord] \<and> paymentScreenshot ord = Some (''/uploads/'' @ p))"
  "post_orders_first env st b f = (r, st') \<Longrightarrow>
     orders st' = orders st \<or>
     (\<exists>ord p. orders st' = orders st @ [ord] \<and> paymentScreenshot ord = Some (''/uploads/'' @ p))"
   apply (simp_all add: post_orders_def post_orders_first_def
      split: option.splits if_splits prod.splits sum.splits)
         apply (auto dest!: save_result)
     apply (metis catch_orders(1,2) snd_conv)+
  done

lemma router_bodies_stored:
  "router_post env st b f = (r, st') \<Longrightarrow>
     orders st' = orders st \<or>
     (\<exists>ord fl. orders st' = orders st @ [ord] \<and> f = Some fl
        \<and> paymentScreenshot ord = Some (path fl) \<and> products ord \<noteq> [])"
  "unnamed_post env st b f = (r, st') \<Longrightarrow>
     orders st' = orders st \<or>
     (\<exists>ord fl. orders st' = orders st @ [ord] \<and> f = Some fl
        \<and> paymentScreenshot ord = Some (path fl) \<and> products ord \<noteq> [])"
   apply (simp_all add: router_post_def unnamed_post_def
      split: option.splits if_splits prod.splits sum.splits bool.splits)
                    apply (auto dest!: save_result simp: castArray_not_empty)
     apply (metis catch_orders(3) snd_conv)+
  done

lemma behind_upload_stored:
  assumes h: "\<And>st b f r st'. h env st b f = (r, st') \<Longrightarrow>
       orders st' = orders st \<or> (\<exists>ord. orders st' = orders st @ [ord] \<and> P f ord)"
    and e: "\<And>st err. orders (snd (eh env st err)) = orders st"
    and H: "H = (case single opts env st (attached req) of
                   (Inl err, st1) \<Rightarrow> eh env st1 err
                 | (Inr f, st1) \<Rightarrow> h env st1 (body req) f)"
    and q: "\<And>f st1 ord. single opts env st (attached req) = (Inr f, st1) \<Longrightarrow> P f ord \<Longrightarrow> Q ord"
  shows "orders (snd H) = orders st \<or> (\<exists>ord. orders (snd H) = orders st @ [ord] \<and> Q ord)"
proof (cases "single opts env st (attached req)")
  case (Pair r st1)
  note s = single_state [OF Pair]
  show ?thesis
  proof (cases r)
    case (Inl err)
    then show ?thesis using Pair s e [of st1 err] by (simp add: H)
  next
    case (Inr f)
    obtain r' st2 where p: "h env st1 (body req) f = (r', st2)" by force
    from h [OF p] show ?thesis
      using Pair Inr s p q [of f st1] by (auto simp: H)
  qed
qed

lemma stored_order_has_screenshot:
  assumes "H \<in> {server_first_POST, server_POST, routes_POST, unnamed_POST}"
  shows "orders (snd (H env st req)) = orders st \<or>
     (\<exists>ord. orders (snd (H env st req)) = orders st @ [ord]
        \<and> (\<exists>p. paymentScreenshot ord = Some p \<and> p \<noteq> []))"
  using assms
proof (elim insertE emptyE)
  assume "H = server_first_POST"
  then show ?thesis
    by (intro behind_upload_stored [where h = post_orders_first and eh = errorHandler_first
          and opts = upload_first
          and P = "\<lambda>f ord. \<exists>p. paymentScreenshot ord = Some (''/uploads/'' @ p)"])
       (auto simp: server_first_POST_def dest: server_bodies_screenshot(2))
next
  assume "H = server_POST"
  then show ?thesis
    by (intro behind_upload_stored [where h = post_orders and eh = errorHandler
          and opts = upload_enhanced
          and P = "\<lambda>f ord. \<exists>p. paymentScreenshot ord = Some (''/uploads/'' @ p)"])
       (auto simp: server_POST_def dest: server_bodies_screenshot(1))
next
  assume "H = routes_POST"
  then show ?thesis
    by (intro behind_upload_stored [where h = router_post
          and eh = "\<lambda>env st err. (Unhandled err, st)" and opts = upload_router
          and P = "\<lambda>f ord. \<exists>fl. f = Some fl \<and> paymentScreenshot ord = Some (path fl)"])
       (auto simp: routes_POST_def upload_router_def
          dest: router_bodies_stored(1) single_path)
next
  assume "H = unnamed_POST"
  then show ?thesis
    by (intro behind_upload_stored [where h = unnamed_post
          and eh = "\<lambda>env st err. (Unhandled err, st)" and opts = upload_router
          and P = "\<lambda>f ord. \<exists>fl. f = Some fl \<and> paymentScreenshot ord = Some (path fl)"])
       (auto simp: unnamed_POST_def upload_router_def
          dest: router_bodies_stored(2) single_path)
qed

lemma routers_store_products:
  assumes "H \<in> {routes_POST, unnamed_POST}"
  shows "orders (snd (H env st req)) = orders st \<or>
     (\<exists>ord. orders (snd (H env st req)) = orders st @ [ord] \<and> products ord \<noteq> [])"
  using assms
proof (elim insertE emptyE)
  assume "H = routes_POST"
  then show ?thesis
    by (intro behind_upload_stored [where h = router_post
          and eh = "\<lambda>env st err. (Unhandled err, st)" and opts = upload_router
          and P = "\<lambda>f ord. products ord \<noteq> []"])
       (auto simp: routes_POST_def dest: router_bodies_stored(1))
next
  assume "H = unnamed_POST"
  then show ?thesis
    by (intro behind_upload_stored [where h = unnamed_post
          and eh = "\<lambda>env st err. (Unhandled err, st)" and opts = upload_router
          and P = "\<lambda>f ord. products ord \<noteq> []"])
       (auto simp: unnamed_POST_def dest: router_bodies_stored(2))
qed

text \<open>
  C9 asks that a failure of the compensating deletion never reach the client. In the first
  handler of server.js the \<open>catch\<close> calls \<open>fs.unlinkSync\<close> unguarded (line 132): in the
  scenario with \<open>products='oops'\<close> the answer is 500 \<open>Failed to create order\<close> when the
  deletion succeeds, and when it fails the error of the deletion leaves the handler and
  that answer is never sent.
\<close>

theorem deletion_failure_escapes:
  "server_first_POST demo_env empty_state malformed_request =
     (Fail 500 ''Failed to create order'' None,
      empty_state\<lparr>console := [Log ''Order creation error:'' (Some SyntaxError)]\<rparr>)
   \<and> server_first_POST (demo_env\<lparr>unlink_fails := True\<rparr>) empty_state malformed_request =
     (Unhandled FsError,
      empty_state\<lparr>disk := {''uploads/7-42.jpg''},
                  console := [Log ''Order creation error:'' (Some SyntaxError)]\<rparr>)"
  by (simp add: handler_defs demo_defs malformed_request_def dec_demo Let_def)

text \<open>The enhanced handler keeps its answer: the callback of \<open>fs.unlink\<close> logs the
  failure, and the reply of the \<open>catch\<close> is the same whether the deletion fails or not.\<close>

lemma catch_enhanced_swallows:
  "fst (catch_enhanced (env\<lparr>unlink_fails := u\<rparr>) st f error) = fst (catch_enhanced env st f error)"
  "unlink_fails env \<Longrightarrow>
     catch_enhanced env st (Some fl) error =
       (Fail 500 ''Failed to create order''
          (if NODE_ENV env = ''development'' then Some error else None),
        console_error ''Error deleting uploaded file:'' (Some FsError)
          (console_error ''Order creation error:'' (Some error) st))"
  by (simp_all add: catch_enhanced_def console_error_def unlink_def Let_def
      split: option.splits)

end
